theory Spec2Isabelle
  imports Main "HOL-Library.Product_Lexorder" "HOL-Library.Multiset"
begin

section \<open>Strings and dates of the standard library\<close>

text \<open>
  A string is the list of its code points. The type \<open>char\<close> holds the code points below
  256 (Latin-1), so these are the strings of the model; a \<open>char\<close> is a code point, not a
  byte of an encoding. On these code points \<open>str.lower()\<close> changes the 26 letters A to Z
  and the 30 letters from 0xC0 to 0xDE other than 0xD7, each to the code point 32 above it,
  and nothing else.
\<close>

definition upper_letters :: string where
  "upper_letters =
     ''ABCDEFGHIJKLMNOPQRSTUVWXYZ''
     @ [CHR 0xC0, CHR 0xC1, CHR 0xC2, CHR 0xC3, CHR 0xC4, CHR 0xC5, CHR 0xC6, CHR 0xC7,
        CHR 0xC8, CHR 0xC9, CHR 0xCA, CHR 0xCB, CHR 0xCC, CHR 0xCD, CHR 0xCE, CHR 0xCF,
        CHR 0xD0, CHR 0xD1, CHR 0xD2, CHR 0xD3, CHR 0xD4, CHR 0xD5, CHR 0xD6, CHR 0xD8,
        CHR 0xD9, CHR 0xDA, CHR 0xDB, CHR 0xDC, CHR 0xDD, CHR 0xDE]"

definition lower_letters :: string where
  "lower_letters =
     ''abcdefghijklmnopqrstuvwxyz''
     @ [CHR 0xE0, CHR 0xE1, CHR 0xE2, CHR 0xE3, CHR 0xE4, CHR 0xE5, CHR 0xE6, CHR 0xE7,
        CHR 0xE8, CHR 0xE9, CHR 0xEA, CHR 0xEB, CHR 0xEC, CHR 0xED, CHR 0xEE, CHR 0xEF,
        CHR 0xF0, CHR 0xF1, CHR 0xF2, CHR 0xF3, CHR 0xF4, CHR 0xF5, CHR 0xF6, CHR 0xF8,
        CHR 0xF9, CHR 0xFA, CHR 0xFB, CHR 0xFC, CHR 0xFD, CHR 0xFE]"

definition lower_char :: "char \<Rightarrow> char" where
  "lower_char c =
     (case map_of (zip upper_letters lower_letters) c of Some l \<Rightarrow> l | None \<Rightarrow> c)"

definition lower :: "string \<Rightarrow> string" where
  "lower s = map lower_char s"

text \<open>\<open>sep.join(xs)\<close>.\<close>

fun join :: "string \<Rightarrow> string list \<Rightarrow> string" where
  "join sep [] = []"
| "join sep [x] = x"
| "join sep (x # y # ys) = x @ sep @ join sep (y # ys)"

text \<open>
  A \<open>datetime.date\<close> is its triple (year, month, day); the comparison operators of
  \<open>date\<close> compare these triples lexicographically, which is the order of the product type.
\<close>

type_synonym date = "nat \<times> nat \<times> nat"

definition digit_char :: "nat \<Rightarrow> char" where
  "digit_char n = ''0123456789'' ! (n mod 10)"

text \<open>\<open>str(d)\<close> for a date is \<open>d.isoformat()\<close>, that is \<open>'%04d-%02d-%02d'\<close>.\<close>

definition date_str :: "date \<Rightarrow> string" where
  "date_str dt =
     (case dt of (y, m, d) \<Rightarrow>
        [digit_char (y div 1000), digit_char (y div 100), digit_char (y div 10), digit_char y]
        @ ''-'' @ [digit_char (m div 10), digit_char m]
        @ ''-'' @ [digit_char (d div 10), digit_char d])"

text \<open>An f-string field holding an optional string prints \<open>None\<close> for \<open>None\<close>.\<close>

definition str_opt :: "string option \<Rightarrow> string" where
  "str_opt v = (case v of None \<Rightarrow> ''None'' | Some s \<Rightarrow> s)"

datatype error = TypeError | ValueError

definition is_digit :: "char \<Rightarrow> bool" where
  "is_digit c = (let n = (of_char c :: nat) in 48 \<le> n \<and> n \<le> 57)"

definition digit_val :: "char \<Rightarrow> nat" where
  "digit_val c = of_char c - 48"

definition is_leap :: "nat \<Rightarrow> bool" where
  "is_leap y = (y mod 4 = 0 \<and> (y mod 100 \<noteq> 0 \<or> y mod 400 = 0))"

definition days_in_month :: "nat \<Rightarrow> nat \<Rightarrow> nat" where
  "days_in_month y m =
     (if m = 2 then (if is_leap y then 29 else 28)
      else if m = 4 \<or> m = 6 \<or> m = 9 \<or> m = 11 then 30 else 31)"

text \<open>
  The month field of \<open>strptime\<close>, \<open>%m\<close>, is the regular expression
  \<open>1[0-2]|0[1-9]|[1-9]\<close>, followed here by the \<open>-\<close> of the format. The result is the
  month and the text after the \<open>-\<close>.
\<close>

fun parse_month :: "string \<Rightarrow> (nat \<times> string) option" where
  "parse_month (a # b # c # rest) =
     (if a = CHR ''1'' \<and> b \<in> set ''012'' \<and> c = CHR ''-'' then Some (10 + digit_val b, rest)
      else if a = CHR ''0'' \<and> is_digit b \<and> b \<noteq> CHR ''0'' \<and> c = CHR ''-''
        then Some (digit_val b, rest)
      else if is_digit a \<and> a \<noteq> CHR ''0'' \<and> b = CHR ''-'' then Some (digit_val a, c # rest)
      else None)"
| "parse_month [a, b] =
     (if is_digit a \<and> a \<noteq> CHR ''0'' \<and> b = CHR ''-'' then Some (digit_val a, []) else None)"
| "parse_month _ = None"

text \<open>
  The day field, \<open>%d\<close>, is \<open>3[01]|[12]\d|0[1-9]|[1-9]| [1-9]\<close>, and it ends the format:
  text left over after it is an error (\<open>unconverted data remains\<close>).
\<close>

fun parse_day :: "string \<Rightarrow> nat option" where
  "parse_day [a, b] =
     (if a = CHR ''3'' \<and> b \<in> set ''01'' then Some (30 + digit_val b)
      else if a \<in> set ''12'' \<and> is_digit b then Some (10 * digit_val a + digit_val b)
      else if a \<in> set ''0 '' \<and> is_digit b \<and> b \<noteq> CHR ''0'' then Some (digit_val b)
      else None)"
| "parse_day [a] = (if is_digit a \<and> a \<noteq> CHR ''0'' then Some (digit_val a) else None)"
| "parse_day _ = None"

text \<open>
  \<open>datetime.strptime(v, '%Y-%m-%d').date()\<close>: a \<open>TypeError\<close> when \<open>v\<close> is not a string, a
  \<open>ValueError\<close> when the text does not match the format or names no day of the calendar
  (years run from 1 to 9999). Among the code points below 256 the digits of the pattern
  \<open>\d\<close> are the ten digits 0 to 9.
\<close>

definition strptime_ymd :: "string option \<Rightarrow> error + date" where
  "strptime_ymd v =
     (case v of
        None \<Rightarrow> Inl TypeError
      | Some s \<Rightarrow>
          (case s of
             y1 # y2 # y3 # y4 # dash # rest \<Rightarrow>
               (if is_digit y1 \<and> is_digit y2 \<and> is_digit y3 \<and> is_digit y4 \<and> dash = CHR ''-''
                then
                  (case parse_month rest of
                     None \<Rightarrow> Inl ValueError
                   | Some (m, rest') \<Rightarrow>
                       (case parse_day rest' of
                          None \<Rightarrow> Inl ValueError
                        | Some d \<Rightarrow>
                            (let y = 1000 * digit_val y1 + 100 * digit_val y2
                                     + 10 * digit_val y3 + digit_val y4
                             in if 1 \<le> y \<and> d \<le> days_in_month y m then Inr (y, m, d)
                                else Inl ValueError)))
                else Inl ValueError)
           | _ \<Rightarrow> Inl ValueError))"

section \<open>Records of the snapshot\<close>

text \<open>
  \<open>Pilot\<close> and \<open>Drone\<close> of \<open>schemas.py\<close>. Both models store their enumerations by value
  (\<open>use_enum_values\<close>), so the status and the skill level are strings. The field names carry
  the prefix of their record, as two records cannot share a field name.
\<close>

record pilot =
  p_id :: string
  p_name :: string
  p_email :: "string option"
  p_phone :: "string option"
  p_skill_level :: string
  p_certifications :: "string list"
  p_drone_experience :: "string list"
  p_current_location :: string
  p_current_assignment :: "string option"
  p_assignment_start_date :: "date option"
  p_assignment_end_date :: "date option"
  p_status :: string
  p_notes :: "string option"

text \<open>The \<open>flight_hours\<close> of a drone, a float no rule reads, are left out.\<close>

record drone =
  d_id :: string
  d_serial_number :: string
  d_model :: string
  d_capabilities :: "string list"
  d_current_assignment :: "string option"
  d_assignment_start_date :: "date option"
  d_assignment_end_date :: "date option"
  d_status :: string
  d_current_location :: string
  d_last_maintenance_date :: "date option"
  d_next_maintenance_date :: "date option"
  d_notes :: "string option"

text \<open>
  A project is the dictionary that \<open>_parse_project_row\<close> builds: all its keys are present,
  the two dates are ISO strings or \<open>None\<close>, the skill level is a string or \<open>None\<close>.
\<close>

record project =
  pr_id :: string
  pr_name :: string
  pr_client :: string
  pr_location :: string
  pr_start_date :: "string option"
  pr_end_date :: "string option"
  pr_required_certifications :: "string list"
  pr_required_capabilities :: "string list"
  pr_required_skill_level :: "string option"
  pr_assigned_pilots :: "string list"
  pr_assigned_drones :: "string list"
  pr_status :: string
  pr_priority :: string
  pr_notes :: string

datatype ConflictType =
    DOUBLE_BOOKING_PILOT
  | DOUBLE_BOOKING_DRONE
  | CERTIFICATION_MISMATCH
  | SKILL_MISMATCH
  | LOCATION_MISMATCH
  | DRONE_MAINTENANCE
  | CAPABILITY_MISMATCH

text \<open>
  \<open>Conflict\<close> of \<open>schemas.py\<close>, without its \<open>id\<close> (eight hexadecimal digits of a fresh
  UUID) and its \<open>detected_at\<close> (the clock): neither is a function of the snapshot. The
  fields a rule does not set keep the defaults of the class.
\<close>

record conflict =
  conflict_type :: ConflictType
  severity :: string
  description :: string
  affected_pilot_id :: "string option"
  affected_pilot_name :: "string option"
  affected_drone_id :: "string option"
  affected_drone_serial :: "string option"
  affected_project_id :: "string option"
  affected_project_name :: "string option"
  resolved :: bool

definition Conflict :: "ConflictType \<Rightarrow> string \<Rightarrow> string \<Rightarrow> conflict" where
  "Conflict t sev descr =
     \<lparr>conflict_type = t, severity = sev, description = descr,
      affected_pilot_id = None, affected_pilot_name = None,
      affected_drone_id = None, affected_drone_serial = None,
      affected_project_id = None, affected_project_name = None,
      resolved = False\<rparr>"

section \<open>The conflict detection service\<close>

definition skill_order :: "string list" where
  "skill_order = [''Beginner'', ''Intermediate'', ''Advanced'', ''Expert'']"

text \<open>\<open>xs.index(y)\<close>, with \<open>None\<close> where Python raises.\<close>

fun list_index :: "'a list \<Rightarrow> 'a \<Rightarrow> nat option" where
  "list_index [] y = None"
| "list_index (x # xs) y = (if x = y then Some 0 else map_option Suc (list_index xs y))"

text \<open>\<open>skill_order.index(s) if s in skill_order else 0\<close>.\<close>

definition skill_idx :: "string \<Rightarrow> nat" where
  "skill_idx s =
     (if s \<in> set skill_order
      then (case list_index skill_order s of Some i \<Rightarrow> i | None \<Rightarrow> 0)
      else 0)"

definition dates_overlap :: "date \<Rightarrow> date \<Rightarrow> date \<Rightarrow> date \<Rightarrow> bool" where
  "dates_overlap start1 end1 start2 end2 = (start1 \<le> end2 \<and> end1 \<ge> start2)"

text \<open>
  A \<open>for\<close> loop whose body appends to \<open>conflicts\<close> and may raise: the lists of the
  iterations in order, or the first exception, which ends the loop and the caller.
\<close>

fun collect :: "('a \<Rightarrow> error + 'c list) \<Rightarrow> 'a list \<Rightarrow> error + 'c list" where
  "collect f [] = Inr []"
| "collect f (x # xs) =
     (case f x of
        Inl e \<Rightarrow> Inl e
      | Inr cs \<Rightarrow> (case collect f xs of Inl e \<Rightarrow> Inl e | Inr ds \<Rightarrow> Inr (cs @ ds)))"

text \<open>Truth value of an optional string: \<open>None\<close> and the empty string are false.\<close>

definition truthy :: "string option \<Rightarrow> bool" where
  "truthy v = (case v of None \<Rightarrow> False | Some s \<Rightarrow> s \<noteq> [])"

text \<open>\<open>next((p for p in pilots if p.id == pilot_id), None)\<close>, also \<open>get_pilot_by_id\<close>.\<close>

definition get_pilot_by_id :: "pilot list \<Rightarrow> string \<Rightarrow> pilot option" where
  "get_pilot_by_id pilots pilot_id = find (\<lambda>p. p_id p = pilot_id) pilots"

definition get_drone_by_id :: "drone list \<Rightarrow> string \<Rightarrow> drone option" where
  "get_drone_by_id drones drone_id = find (\<lambda>d. d_id d = drone_id) drones"

subsection \<open>Double bookings\<close>

definition pilot_double_booking_conflict ::
  "pilot \<Rightarrow> string \<Rightarrow> date \<Rightarrow> date \<Rightarrow> project \<Rightarrow> conflict" where
  "pilot_double_booking_conflict pl a s e pr =
     (Conflict DOUBLE_BOOKING_PILOT ''Critical''
        (''Pilot '' @ p_name pl @ '' is double-booked: assigned to '' @ [CHR 0x27] @ a
         @ [CHR 0x27] @ '' ('' @ date_str s @ '' to '' @ date_str e
         @ '') which overlaps with '' @ [CHR 0x27] @ pr_name pr @ [CHR 0x27] @ '' (''
         @ str_opt (pr_start_date pr) @ '' to '' @ str_opt (pr_end_date pr) @ '')''))
     \<lparr>affected_pilot_id := Some (p_id pl), affected_pilot_name := Some (p_name pl),
      affected_project_id := Some (pr_id pr), affected_project_name := Some (pr_name pr)\<rparr>"

text \<open>The body of the inner loop, for a pilot with assignment \<open>a\<close> from \<open>s\<close> to \<open>e\<close>.\<close>

definition pilot_project_double_booking ::
  "pilot \<Rightarrow> string \<Rightarrow> date \<Rightarrow> date \<Rightarrow> project \<Rightarrow> error + conflict list" where
  "pilot_project_double_booking pl a s e pr =
     (if pr_name pr = a then Inr []
      else if p_id pl \<in> set (pr_assigned_pilots pr) then
        (case strptime_ymd (pr_start_date pr) of
           Inl err \<Rightarrow> Inl err
         | Inr proj_start \<Rightarrow>
             (case strptime_ymd (pr_end_date pr) of
                Inl err \<Rightarrow> Inl err
              | Inr proj_end \<Rightarrow>
                  (if dates_overlap s e proj_start proj_end
                   then Inr [pilot_double_booking_conflict pl a s e pr]
                   else Inr [])))
      else Inr [])"

definition detect_pilot_double_bookings ::
  "pilot list \<Rightarrow> project list \<Rightarrow> error + conflict list" where
  "detect_pilot_double_bookings pilots projects =
     collect
       (\<lambda>pl.
          (case (p_current_assignment pl, p_assignment_start_date pl, p_assignment_end_date pl) of
             (Some a, Some s, Some e) \<Rightarrow>
               (if a = [] then Inr []
                else collect (pilot_project_double_booking pl a s e) projects)
           | _ \<Rightarrow> Inr []))
       pilots"




subsection \<open>Certification, skill and capability mismatches\<close>



definition skill_conflict :: "pilot \<Rightarrow> project \<Rightarrow> string \<Rightarrow> conflict" where
  "skill_conflict pl pr required_skill =
     (Conflict SKILL_MISMATCH ''Medium''
        (''Pilot '' @ p_name pl @ '' (skill level: '' @ p_skill_level pl @ '') is assigned to ''
         @ [CHR 0x27] @ pr_name pr @ [CHR 0x27] @ '' which requires '' @ required_skill
         @ '' level''))
     \<lparr>affected_pilot_id := Some (p_id pl), affected_pilot_name := Some (p_name pl),
      affected_project_id := Some (pr_id pr), affected_project_name := Some (pr_name pr)\<rparr>"

definition detect_skill_mismatches :: "pilot list \<Rightarrow> project list \<Rightarrow> conflict list" where
  "detect_skill_mismatches pilots projects =
     concat (map
       (\<lambda>pr.
          (case pr_required_skill_level pr of
             None \<Rightarrow> []
           | Some required_skill \<Rightarrow>
               if required_skill = [] then []
               else
                 (let required_idx = skill_idx required_skill in
                  concat (map
                    (\<lambda>pilot_id.
                       (case get_pilot_by_id pilots pilot_id of
                          None \<Rightarrow> []
                        | Some pl \<Rightarrow>
                            (let pilot_idx = skill_idx (p_skill_level pl)
                             in if pilot_idx < required_idx
                                then [skill_conflict pl pr required_skill]
                                else [])))
                    (pr_assigned_pilots pr)))))
       projects)"



subsection \<open>Location mismatches\<close>






subsection \<open>Drone maintenance\<close>

definition maintenance_status_conflict :: "drone \<Rightarrow> project \<Rightarrow> conflict" where
  "maintenance_status_conflict d pr =
     (Conflict DRONE_MAINTENANCE ''Critical''
        (''Drone '' @ d_serial_number d @ '' ('' @ d_model d
         @ '') is in MAINTENANCE but assigned to '' @ [CHR 0x27] @ pr_name pr @ [CHR 0x27]
         @ ''. Notes: '' @ (if truthy (d_notes d) then str_opt (d_notes d) else ''No details'')))
     \<lparr>affected_drone_id := Some (d_id d), affected_drone_serial := Some (d_serial_number d),
      affected_project_id := Some (pr_id pr), affected_project_name := Some (pr_name pr)\<rparr>"

definition maintenance_window_conflict :: "drone \<Rightarrow> date \<Rightarrow> project \<Rightarrow> conflict" where
  "maintenance_window_conflict d m pr =
     (Conflict DRONE_MAINTENANCE ''Medium''
        (''Drone '' @ d_serial_number d @ '' has scheduled maintenance on '' @ date_str m
         @ '' during '' @ [CHR 0x27] @ pr_name pr @ [CHR 0x27] @ '' (''
         @ str_opt (pr_start_date pr) @ '' to '' @ str_opt (pr_end_date pr) @ '')''))
     \<lparr>affected_drone_id := Some (d_id d), affected_drone_serial := Some (d_serial_number d),
      affected_project_id := Some (pr_id pr), affected_project_name := Some (pr_name pr)\<rparr>"

text \<open>The body of the inner loop: one assigned drone id of one project.\<close>

definition drone_maintenance_check ::
  "drone list \<Rightarrow> project \<Rightarrow> string \<Rightarrow> error + conflict list" where
  "drone_maintenance_check drones pr drone_id =
     (case get_drone_by_id drones drone_id of
        None \<Rightarrow> Inr []
      | Some d \<Rightarrow>
          (let in_maintenance =
             (if d_status d = ''Maintenance'' then [maintenance_status_conflict d pr] else [])
           in
             (case d_next_maintenance_date d of
                None \<Rightarrow> Inr in_maintenance
              | Some m \<Rightarrow>
                  (case strptime_ymd (pr_start_date pr) of
                     Inl err \<Rightarrow> Inl err
                   | Inr proj_start \<Rightarrow>
                       (case strptime_ymd (pr_end_date pr) of
                          Inl err \<Rightarrow> Inl err
                        | Inr proj_end \<Rightarrow>
                            (if proj_start \<le> m \<and> m \<le> proj_end
                             then Inr (in_maintenance @ [maintenance_window_conflict d m pr])
                             else Inr in_maintenance))))))"

definition detect_drone_maintenance_conflicts ::
  "drone list \<Rightarrow> project list \<Rightarrow> error + conflict list" where
  "detect_drone_maintenance_conflicts drones projects =
     collect (\<lambda>pr. collect (drone_maintenance_check drones pr) (pr_assigned_drones pr)) projects"

subsection \<open>The full sweep\<close>


subsection \<open>The check before an assignment\<close>

text \<open>The block of \<open>check_assignment_conflicts\<close> for a pilot that was found.\<close>

definition pilot_assignment_checks ::
  "pilot \<Rightarrow> string \<Rightarrow> date \<Rightarrow> date \<Rightarrow> string list \<Rightarrow> string \<Rightarrow> string \<Rightarrow> conflict list" where
  "pilot_assignment_checks pl project_id start_date end_date required_certs required_skill
       location =
     (let for_pilot = (\<lambda>c. c\<lparr>affected_pilot_id := Some (p_id pl),
                               affected_pilot_name := Some (p_name pl),
                               affected_project_id := Some project_id\<rparr>);
          missing_certs = filter (\<lambda>cert. cert \<notin> set (p_certifications pl)) required_certs
      in
        (if p_status pl = ''On Leave''
         then [for_pilot (Conflict DOUBLE_BOOKING_PILOT ''Critical''
                 (''Pilot '' @ p_name pl @ '' is currently on leave''))]
         else [])
        @ (case (p_assignment_start_date pl, p_assignment_end_date pl) of
             (Some s, Some e) \<Rightarrow>
               if dates_overlap s e start_date end_date
               then [for_pilot (Conflict DOUBLE_BOOKING_PILOT ''Critical''
                       (''Pilot '' @ p_name pl @ '' is already assigned to '' @ [CHR 0x27]
                        @ str_opt (p_current_assignment pl) @ [CHR 0x27]
                        @ '' during this period''))]
               else []
           | _ \<Rightarrow> [])
        @ (if missing_certs \<noteq> []
           then [for_pilot (Conflict CERTIFICATION_MISMATCH ''High''
                   (''Pilot '' @ p_name pl @ '' lacks certifications: ''
                    @ join '', '' missing_certs))]
           else [])
        @ (if required_skill \<in> set skill_order
              \<and> skill_idx (p_skill_level pl) < skill_idx required_skill
           then [for_pilot (Conflict SKILL_MISMATCH ''Medium''
                   (''Pilot '' @ p_name pl @ '' skill level ('' @ p_skill_level pl
                    @ '') is below required ('' @ required_skill @ '')''))]
           else [])
        @ (if location \<noteq> [] \<and> lower (p_current_location pl) \<noteq> lower location
           then [for_pilot (Conflict LOCATION_MISMATCH ''Medium''
                   (''Pilot '' @ p_name pl @ '' is in '' @ p_current_location pl
                    @ '', project is in '' @ location))]
           else []))"

text \<open>The block for a drone that was found.\<close>

definition drone_assignment_checks ::
  "drone \<Rightarrow> string \<Rightarrow> date \<Rightarrow> date \<Rightarrow> string list \<Rightarrow> string \<Rightarrow> conflict list" where
  "drone_assignment_checks d project_id start_date end_date required_caps location =
     (let for_drone = (\<lambda>c. c\<lparr>affected_drone_id := Some (d_id d),
                               affected_drone_serial := Some (d_serial_number d),
                               affected_project_id := Some project_id\<rparr>);
          missing_caps = filter (\<lambda>cap. cap \<notin> set (d_capabilities d)) required_caps
      in
        (if d_status d = ''Maintenance''
         then [for_drone (Conflict DRONE_MAINTENANCE ''Critical''
                 (''Drone '' @ d_serial_number d @ '' is in maintenance''))]
         else [])
        @ (case (d_assignment_start_date d, d_assignment_end_date d) of
             (Some s, Some e) \<Rightarrow>
               if dates_overlap s e start_date end_date
               then [for_drone (Conflict DOUBLE_BOOKING_DRONE ''Critical''
                       (''Drone '' @ d_serial_number d @ '' is already assigned to ''
                        @ [CHR 0x27] @ str_opt (d_current_assignment d) @ [CHR 0x27]))]
               else []
           | _ \<Rightarrow> [])
        @ (if missing_caps \<noteq> []
           then [for_drone (Conflict CAPABILITY_MISMATCH ''High''
                   (''Drone '' @ d_serial_number d @ '' lacks capabilities: ''
                    @ join '', '' missing_caps))]
           else [])
        @ (if location \<noteq> [] \<and> lower (d_current_location d) \<noteq> lower location
           then [for_drone (Conflict LOCATION_MISMATCH ''Medium''
                   (''Drone '' @ d_serial_number d @ '' is in '' @ d_current_location d
                    @ '', project is in '' @ location))]
           else []))"

text \<open>
  \<open>check_assignment_conflicts\<close>, with the pilots and drones of the sheets service as
  arguments. An id that is \<open>None\<close> or empty is skipped, and so is an id that is not found.
\<close>

definition check_assignment_conflicts ::
  "pilot list \<Rightarrow> drone list \<Rightarrow> string option \<Rightarrow> string option \<Rightarrow> string \<Rightarrow> date \<Rightarrow> date
     \<Rightarrow> string list \<Rightarrow> string list \<Rightarrow> string \<Rightarrow> string \<Rightarrow> conflict list" where
  "check_assignment_conflicts pilots drones pilot_id drone_id project_id start_date end_date
       required_certs required_caps required_skill location =
     (case pilot_id of
        None \<Rightarrow> []
      | Some pid \<Rightarrow>
          if pid = [] then []
          else (case get_pilot_by_id pilots pid of
                  None \<Rightarrow> []
                | Some pl \<Rightarrow>
                    pilot_assignment_checks pl project_id start_date end_date required_certs
                      required_skill location))
     @ (case drone_id of
          None \<Rightarrow> []
        | Some did \<Rightarrow>
            if did = [] then []
            else (case get_drone_by_id drones did of
                    None \<Rightarrow> []
                  | Some d \<Rightarrow>
                      drone_assignment_checks d project_id start_date end_date required_caps
                        location))"

section \<open>Replacement candidates\<close>

text \<open>
  \<open>xs.sort(key=key, reverse=True)\<close>: the list is reversed, sorted stably by ascending
  key, and reversed again, so that equal keys keep their order. \<open>sort_key\<close> is the stable
  sort of the library.
\<close>

definition sort_reverse :: "('a \<Rightarrow> int) \<Rightarrow> 'a list \<Rightarrow> 'a list" where
  "sort_reverse key xs = rev (sort_key key (rev xs))"

record pilot_candidate =
  pc_pilot :: pilot
  pc_score :: int
  pc_issues :: "string list"
  pc_recommended :: bool

record drone_candidate =
  dc_drone :: drone
  dc_score :: int
  dc_issues :: "string list"
  dc_recommended :: bool

text \<open>
  The body of the loop of \<open>_find_replacement_pilot\<close> for a pilot that passed the two
  filters; \<open>score\<close> and \<open>issues\<close> are threaded through the three checks.
\<close>

definition score_pilot ::
  "string list \<Rightarrow> string option \<Rightarrow> nat \<Rightarrow> string option \<Rightarrow> pilot \<Rightarrow> pilot_candidate" where
  "score_pilot required_certs required_skill required_skill_idx preferred_location pl =
     (let missing_certs = filter (\<lambda>c. c \<notin> set (p_certifications pl)) required_certs;
          (score1, issues1) =
            (if missing_certs \<noteq> []
             then (0, [''Missing certs: '' @ join '', '' missing_certs])
             else (30, []));
          pilot_skill_idx = skill_idx (p_skill_level pl);
          (score2, issues2) =
            (if pilot_skill_idx \<ge> required_skill_idx then (score1 + 25, issues1)
             else (score1, issues1 @ [''Skill level '' @ p_skill_level pl
                                      @ '' below required '' @ str_opt required_skill]));
          (score3, issues3) =
            (if truthy preferred_location
                \<and> lower (p_current_location pl) = lower (str_opt preferred_location)
             then (score2 + 25, issues2)
             else if truthy preferred_location
             then (score2, issues2 @ [''In '' @ p_current_location pl @ '', not ''
                                      @ str_opt preferred_location])
             else (score2, issues2));
          score4 = score3 + int pilot_skill_idx * 5
      in \<lparr>pc_pilot = pl, pc_score = score4, pc_issues = issues3,
          pc_recommended = (length issues3 = 0)\<rparr>)"

text \<open>The loop over \<open>all_pilots\<close>, the sort and the slice \<open>candidates[:5]\<close>.\<close>

definition pilot_candidates ::
  "string list \<Rightarrow> string option \<Rightarrow> string option \<Rightarrow> string option \<Rightarrow> pilot list
     \<Rightarrow> pilot_candidate list" where
  "pilot_candidates required_certs required_skill preferred_location exclude_pilot_id
       all_pilots =
     (let required_skill_idx = (case required_skill of None \<Rightarrow> 0 | Some s \<Rightarrow> skill_idx s)
      in concat (map
           (\<lambda>pl.
              if Some (p_id pl) = exclude_pilot_id then []
              else if p_status pl \<noteq> ''Available'' then []
              else [score_pilot required_certs required_skill required_skill_idx
                      preferred_location pl])
           all_pilots))"

definition rank_pilot_candidates ::
  "string list \<Rightarrow> string option \<Rightarrow> string option \<Rightarrow> string option \<Rightarrow> pilot list
     \<Rightarrow> pilot_candidate list" where
  "rank_pilot_candidates required_certs required_skill preferred_location exclude_pilot_id
       all_pilots =
     take 5 (sort_reverse pc_score
       (pilot_candidates required_certs required_skill preferred_location exclude_pilot_id
          all_pilots))"

definition score_drone :: "string list \<Rightarrow> string option \<Rightarrow> drone \<Rightarrow> drone_candidate" where
  "score_drone required_caps preferred_location d =
     (let missing_caps = filter (\<lambda>c. c \<notin> set (d_capabilities d)) required_caps;
          (score1, issues1) =
            (if missing_caps \<noteq> []
             then (0, [''Missing capabilities: '' @ join '', '' missing_caps])
             else (40, []));
          (score2, issues2) =
            (if truthy preferred_location
                \<and> lower (d_current_location d) = lower (str_opt preferred_location)
             then (score1 + 30, issues1)
             else if truthy preferred_location
             then (score1, issues1 @ [''In '' @ d_current_location d @ '', not ''
                                      @ str_opt preferred_location])
             else (score1, issues1));
          score3 = score2 + int (length (d_capabilities d)) * 2
      in \<lparr>dc_drone = d, dc_score = score3, dc_issues = issues2,
          dc_recommended = (length issues2 = 0)\<rparr>)"

definition drone_candidates ::
  "string list \<Rightarrow> string option \<Rightarrow> string option \<Rightarrow> drone list \<Rightarrow> drone_candidate list" where
  "drone_candidates required_caps preferred_location exclude_drone_id all_drones =
     concat (map
       (\<lambda>d.
          if Some (d_id d) = exclude_drone_id then []
          else if d_status d \<noteq> ''Available'' then []
          else [score_drone required_caps preferred_location d])
       all_drones)"

definition rank_drone_candidates ::
  "string list \<Rightarrow> string option \<Rightarrow> string option \<Rightarrow> drone list \<Rightarrow> drone_candidate list" where
  "rank_drone_candidates required_caps preferred_location exclude_drone_id all_drones =
     take 5 (sort_reverse dc_score
       (drone_candidates required_caps preferred_location exclude_drone_id all_drones))"

text \<open>
  The arguments of the two tool calls. \<open>None\<close> is a key that the dictionary lacks; the
  response is the structure that \<open>json.dumps\<close> prints.
\<close>

record pilot_arguments =
  pa_project_id :: "string option"
  pa_required_certifications :: "string list option"
  pa_required_skill_level :: "string option"
  pa_preferred_location :: "string option"
  pa_exclude_pilot_id :: "string option"

record pilot_response =
  prs_project_id :: "string option"
  prs_required_certifications :: "string list"
  prs_required_skill_level :: "string option"
  prs_preferred_location :: "string option"
  prs_candidates :: "pilot_candidate list"

definition find_replacement_pilot ::
  "project list \<Rightarrow> pilot list \<Rightarrow> pilot_arguments \<Rightarrow> pilot_response" where
  "find_replacement_pilot projects all_pilots arguments =
     (let project_id = pa_project_id arguments;
          required_certs0 =
            (case pa_required_certifications arguments of None \<Rightarrow> [] | Some cs \<Rightarrow> cs);
          required_skill0 =
            (case pa_required_skill_level arguments of
               None \<Rightarrow> Some ''Intermediate'' | Some s \<Rightarrow> Some s);
          preferred_location0 = pa_preferred_location arguments;
          exclude_pilot_id = pa_exclude_pilot_id arguments;
          project = find (\<lambda>p. Some (pr_id p) = project_id) projects;
          required_certs =
            (case project of
               Some p \<Rightarrow> if required_certs0 = [] then pr_required_certifications p
                         else required_certs0
             | None \<Rightarrow> required_certs0);
          required_skill =
            (case project of
               Some p \<Rightarrow> if \<not> truthy required_skill0 then pr_required_skill_level p
                         else required_skill0
             | None \<Rightarrow> required_skill0);
          preferred_location =
            (case project of
               Some p \<Rightarrow> if \<not> truthy preferred_location0 then Some (pr_location p)
                         else preferred_location0
             | None \<Rightarrow> preferred_location0)
      in \<lparr>prs_project_id = project_id,
          prs_required_certifications = required_certs,
          prs_required_skill_level = required_skill,
          prs_preferred_location = preferred_location,
          prs_candidates =
            rank_pilot_candidates required_certs required_skill preferred_location
              exclude_pilot_id all_pilots\<rparr>)"

record drone_arguments =
  da_project_id :: "string option"
  da_required_capabilities :: "string list option"
  da_preferred_location :: "string option"
  da_exclude_drone_id :: "string option"

record drone_response =
  drs_project_id :: "string option"
  drs_required_capabilities :: "string list"
  drs_preferred_location :: "string option"
  drs_candidates :: "drone_candidate list"

definition find_replacement_drone ::
  "project list \<Rightarrow> drone list \<Rightarrow> drone_arguments \<Rightarrow> drone_response" where
  "find_replacement_drone projects all_drones arguments =
     (let project_id = da_project_id arguments;
          required_caps0 =
            (case da_required_capabilities arguments of None \<Rightarrow> [] | Some cs \<Rightarrow> cs);
          preferred_location0 = da_preferred_location arguments;
          exclude_drone_id = da_exclude_drone_id arguments;
          project = find (\<lambda>p. Some (pr_id p) = project_id) projects;
          required_caps =
            (case project of
               Some p \<Rightarrow> if required_caps0 = [] then pr_required_capabilities p
                         else required_caps0
             | None \<Rightarrow> required_caps0);
          preferred_location =
            (case project of
               Some p \<Rightarrow> if \<not> truthy preferred_location0 then Some (pr_location p)
                         else preferred_location0
             | None \<Rightarrow> preferred_location0)
      in \<lparr>drs_project_id = project_id,
          drs_required_capabilities = required_caps,
          drs_preferred_location = preferred_location,
          drs_candidates =
            rank_drone_candidates required_caps preferred_location exclude_drone_id
              all_drones\<rparr>)"

section \<open>A snapshot to run the rules on\<close>

definition ex_pilot :: pilot where
  "ex_pilot =
     \<lparr>p_id = ''P001'', p_name = ''Arjun'', p_email = None, p_phone = None,
      p_skill_level = ''Intermediate'', p_certifications = [''DGCA''],
      p_drone_experience = [''Mapping''], p_current_location = ''Bangalore'',
      p_current_assignment = Some ''A'', p_assignment_start_date = Some (2024, 3, 1),
      p_assignment_end_date = Some (2024, 3, 10), p_status = ''Assigned'', p_notes = None\<rparr>"

definition ex_drone :: drone where
  "ex_drone =
     \<lparr>d_id = ''D001'', d_serial_number = ''SN-1'', d_model = ''M300'',
      d_capabilities = [''RGB''], d_current_assignment = None,
      d_assignment_start_date = None, d_assignment_end_date = None,
      d_status = ''Available'', d_current_location = ''Mumbai'',
      d_last_maintenance_date = None, d_next_maintenance_date = Some (2024, 3, 15),
      d_notes = None\<rparr>"

definition ex_project_A :: project where
  "ex_project_A =
     \<lparr>pr_id = ''PRJ-A'', pr_name = ''A'', pr_client = ''Acme'', pr_location = ''bangalore'',
      pr_start_date = Some ''2024-03-01'', pr_end_date = Some ''2024-03-10'',
      pr_required_certifications = [], pr_required_capabilities = [],
      pr_required_skill_level = Some ''Intermediate'',
      pr_assigned_pilots = [''P001''], pr_assigned_drones = [],
      pr_status = ''Active'', pr_priority = ''High'', pr_notes = []\<rparr>"

definition ex_project_B :: project where
  "ex_project_B =
     \<lparr>pr_id = ''PRJ-B'', pr_name = ''B'', pr_client = ''Beta'', pr_location = ''BANGALORE'',
      pr_start_date = Some ''2024-03-05'', pr_end_date = Some ''2024-03-15'',
      pr_required_certifications = [''DGCA'', ''Night Ops''],
      pr_required_capabilities = [''Thermal''],
      pr_required_skill_level = Some ''Advanced'',
      pr_assigned_pilots = [''P001''], pr_assigned_drones = [''D001''],
      pr_status = ''Active'', pr_priority = ''Urgent'', pr_notes = []\<rparr>"


definition ex_pilot_2 :: pilot where
  "ex_pilot_2 =
     \<lparr>p_id = ''P002'', p_name = ''Neha'', p_email = None, p_phone = None,
      p_skill_level = ''Beginner'', p_certifications = [],
      p_drone_experience = [], p_current_location = ''Pune'',
      p_current_assignment = None, p_assignment_start_date = None,
      p_assignment_end_date = None, p_status = ''Available'', p_notes = None\<rparr>"

text \<open>A second record with the id of \<open>ex_pilot\<close>; the sheet parser keeps both.\<close>

definition ex_pilot_dup :: pilot where
  "ex_pilot_dup = ex_pilot_2\<lparr>p_id := ''P001'', p_name := ''Ravi''\<rparr>"

definition ex_drone_2 :: drone where
  "ex_drone_2 =
     \<lparr>d_id = ''D002'', d_serial_number = ''SN-2'', d_model = ''Mavic'',
      d_capabilities = [''RGB'', ''Thermal''], d_current_assignment = None,
      d_assignment_start_date = None, d_assignment_end_date = None,
      d_status = ''Maintenance'', d_current_location = ''bangalore'',
      d_last_maintenance_date = None, d_next_maintenance_date = Some (2024, 3, 5),
      d_notes = None\<rparr>"

text \<open>Project B with a second pilot and a second drone on its lists.\<close>

definition ex_project_B2 :: project where
  "ex_project_B2 =
     ex_project_B\<lparr>pr_assigned_pilots := [''P001'', ''P404'', ''P002''],
                  pr_assigned_drones := [''D404'', ''D001'', ''D002'']\<rparr>"

text \<open>A drone without a maintenance date that has the id of \<open>ex_drone\<close>.\<close>

definition ex_drone_unscheduled :: drone where
  "ex_drone_unscheduled =
     ex_drone\<lparr>d_serial_number := ''SN-0'', d_next_maintenance_date := None\<rparr>"


text \<open>A pool of seven available pilots without certifications, and the assigned pilot.\<close>

definition ex_candidate :: "string \<Rightarrow> string \<Rightarrow> string \<Rightarrow> pilot" where
  "ex_candidate pilot_id skill location =
     ex_pilot_2\<lparr>p_id := pilot_id, p_skill_level := skill, p_current_location := location\<rparr>"

definition ex_pool :: "pilot list" where
  "ex_pool =
     [ex_candidate ''Q1'' ''Beginner'' ''Pune'',
      ex_candidate ''Q2'' ''Expert'' ''Mumbai'',
      ex_candidate ''Q3'' ''Advanced'' ''PUNE'',
      ex_pilot,
      ex_candidate ''Q4'' ''Beginner'' ''pune'',
      ex_candidate ''Q5'' ''Advanced'' ''Pune'',
      ex_candidate ''Q6'' ''Intermediate'' ''Delhi'',
      ex_candidate ''Q7'' ''Beginner'' ''Pune'']"

text \<open>A pool of six available drones, and the drone in maintenance.\<close>

definition ex_drone_candidate :: "string \<Rightarrow> string list \<Rightarrow> string \<Rightarrow> drone" where
  "ex_drone_candidate drone_id caps location =
     ex_drone\<lparr>d_id := drone_id, d_capabilities := caps, d_current_location := location\<rparr>"

definition ex_drone_pool :: "drone list" where
  "ex_drone_pool =
     [ex_drone_candidate ''R1'' [''RGB''] ''Pune'',
      ex_drone_candidate ''R2'' [''RGB'', ''Thermal''] ''Mumbai'',
      ex_drone_candidate ''R3'' [''Thermal''] ''pune'',
      ex_drone_2,
      ex_drone_candidate ''R4'' [''RGB''] ''PUNE'',
      ex_drone_candidate ''R5'' [''Thermal'', ''LiDAR''] ''Delhi'',
      ex_drone_candidate ''R6'' [''Thermal''] ''Pune'']"

section \<open>The words of the specification\<close>

text \<open>
  The rank of a skill level as the specification gives it: Beginner 0, Intermediate 1,
  Advanced 2, Expert 3, and 0 for any other string.
\<close>

definition spec_skill_rank :: "string \<Rightarrow> nat" where
  "spec_skill_rank s =
     (if s = ''Beginner'' then 0
      else if s = ''Intermediate'' then 1
      else if s = ''Advanced'' then 2
      else if s = ''Expert'' then 3
      else 0)"

text \<open>
  Two code points are the same letter when they are equal or one is the upper-case and the
  other the lower-case form of one letter; two strings differ in letter case at most when
  they have the same letters position by position.
\<close>

definition same_letter :: "char \<Rightarrow> char \<Rightarrow> bool" where
  "same_letter a b \<longleftrightarrow>
     a = b \<or> (a, b) \<in> set (zip upper_letters lower_letters)
           \<or> (b, a) \<in> set (zip upper_letters lower_letters)"

definition same_up_to_case :: "string \<Rightarrow> string \<Rightarrow> bool" where
  "same_up_to_case s t = list_all2 same_letter s t"

text \<open>
  A reference by id stands for the first record of the snapshot with that id. With unique
  ids this is any record of the snapshot.
\<close>

definition first_with_id :: "('a \<Rightarrow> string) \<Rightarrow> 'a list \<Rightarrow> 'a \<Rightarrow> bool" where
  "first_with_id ident xs x \<longleftrightarrow>
     (\<exists>before after. xs = before @ x # after \<and> (\<forall>y\<in>set before. ident y \<noteq> ident x))"

section \<open>The overlap of two date ranges\<close>

text \<open>
  Claim C1. For two well-ordered closed date ranges, \<open>_dates_overlap\<close> holds exactly when
  the first starts no later than the second ends and ends no earlier than the second
  starts; in particular two ranges that touch in a single day overlap.
\<close>

theorem dates_overlap_iff:
  assumes "startA \<le> endA" and "startB \<le> endB"
  shows "(dates_overlap startA endA startB endB \<longleftrightarrow> startA \<le> endB \<and> endA \<ge> startB)
       \<and> (endA = startB \<longrightarrow> dates_overlap startA endA startB endB)
       \<and> (endB = startA \<longrightarrow> dates_overlap startA endA startB endB)"
  using assms unfolding dates_overlap_def by auto

theorem dates_overlap_iff_witness:
  "dates_overlap (2024, 1, 1) (2024, 1, 10) (2024, 1, 10) (2024, 1, 20)"
  using dates_overlap_iff [of "(2024, 1, 1)" "(2024, 1, 10)" "(2024, 1, 10)" "(2024, 1, 20)"]
  by simp

text \<open>The two ranges overlap exactly when some day lies in both.\<close>

lemma dates_overlap_common_day:
  assumes "startA \<le> endA" and "startB \<le> endB"
  shows "dates_overlap startA endA startB endB \<longleftrightarrow>
           (\<exists>d. startA \<le> d \<and> d \<le> endA \<and> startB \<le> d \<and> d \<le> endB)"
proof
  assume "dates_overlap startA endA startB endB"
  then have ov: "startA \<le> endB" "startB \<le> endA"
    by (simp_all add: dates_overlap_def)
  show "\<exists>d. startA \<le> d \<and> d \<le> endA \<and> startB \<le> d \<and> d \<le> endB"
  proof (cases "startA \<le> startB")
    case True
    with ov assms show ?thesis by (intro exI [of _ startB]) simp
  next
    case False
    then have "startB \<le> startA" by simp
    with ov assms show ?thesis by (intro exI [of _ startA]) simp
  qed
next
  assume "\<exists>d. startA \<le> d \<and> d \<le> endA \<and> startB \<le> d \<and> d \<le> endB"
  then obtain d where "startA \<le> d" "d \<le> endA" "startB \<le> d" "d \<le> endB"
    by blast
  then show "dates_overlap startA endA startB endB"
    unfolding dates_overlap_def by (meson order.trans)
qed

section \<open>Running the library functions\<close>

lemmas strptime_eval = strptime_ymd_def is_digit_def digit_val_def days_in_month_def is_leap_def

lemmas lower_eval = lower_def lower_char_def upper_letters_def lower_letters_def

section \<open>Loops that may raise\<close>

lemma collect_all_Inr:
  "collect f xs = Inr cs \<Longrightarrow> x \<in> set xs \<Longrightarrow> \<exists>ds. f x = Inr ds"
  by (induction xs arbitrary: cs) (auto split: sum.splits)

lemma collect_total:
  "\<forall>x\<in>set xs. \<exists>ds. f x = Inr ds \<Longrightarrow>
     collect f xs = Inr (concat (map (\<lambda>x. projr (f x)) xs))"
  by (induction xs) (auto split: sum.splits)

lemma collect_result:
  "collect f xs = Inr cs \<Longrightarrow> cs = concat (map (\<lambda>x. projr (f x)) xs)"
  by (induction xs arbitrary: cs) (auto split: sum.splits)

lemma collect_mem:
  assumes "collect f xs = Inr cs" and "c \<in> set cs"
  shows "\<exists>x\<in>set xs. \<exists>ds. f x = Inr ds \<and> c \<in> set ds"
proof -
  from assms(2) collect_result [OF assms(1)]
  obtain x where x: "x \<in> set xs" "c \<in> set (projr (f x))"
    by auto
  from collect_all_Inr [OF assms(1) x(1)] obtain ds where "f x = Inr ds" ..
  with x show ?thesis by auto
qed

lemma collect_emits:
  assumes "collect f xs = Inr cs" and "x \<in> set xs" and "f x = Inr ds" and "c \<in> set ds"
  shows "c \<in> set cs"
  using assms(2-4) unfolding collect_result [OF assms(1)] by force

lemma collect_raises:
  "x \<in> set xs \<Longrightarrow> f x = Inl e \<Longrightarrow> \<exists>e'. collect f xs = Inl e'"
  by (induction xs) (auto split: sum.splits)

section \<open>Pilot double bookings\<close>

lemma pilot_project_double_booking_mem:
  assumes "pilot_project_double_booking pl a s e pr = Inr ds" and "c \<in> set ds"
  shows "pr_name pr \<noteq> a \<and> c = pilot_double_booking_conflict pl a s e pr"
  using assms unfolding pilot_project_double_booking_def
  by (auto split: if_splits sum.splits)

text \<open>
  Claim C2. Every conflict that the pilot double-booking rule emits is for a pilot of the
  snapshot and a project of the snapshot whose name is not that pilot's current
  assignment: no pilot is in conflict with the project it is recorded on.
\<close>

theorem pilot_double_booking_no_self_conflict:
  assumes "detect_pilot_double_bookings pilots projects = Inr cs" and "c \<in> set cs"
  shows "\<exists>pl\<in>set pilots. \<exists>pr\<in>set projects.
           conflict_type c = DOUBLE_BOOKING_PILOT
         \<and> affected_pilot_id c = Some (p_id pl)
         \<and> affected_project_id c = Some (pr_id pr)
         \<and> affected_project_name c = Some (pr_name pr)
         \<and> p_current_assignment pl \<noteq> Some (pr_name pr)"
proof -
  from collect_mem [OF assms [unfolded detect_pilot_double_bookings_def]]
  obtain pl ds where pl: "pl \<in> set pilots" "c \<in> set ds"
    and body: "(case (p_current_assignment pl, p_assignment_start_date pl,
                      p_assignment_end_date pl) of
                  (Some a, Some s, Some e) \<Rightarrow>
                    (if a = [] then Inr []
                     else collect (pilot_project_double_booking pl a s e) projects)
                | _ \<Rightarrow> Inr []) = Inr ds"
    by blast
  from body pl(2) obtain a s e where cur: "p_current_assignment pl = Some a"
    and inner: "collect (pilot_project_double_booking pl a s e) projects = Inr ds"
    by (auto split: option.splits if_splits)
  from collect_mem [OF inner pl(2)]
  obtain pr es where pr: "pr \<in> set projects"
    "pilot_project_double_booking pl a s e pr = Inr es" "c \<in> set es"
    by blast
  from pilot_project_double_booking_mem [OF pr(2,3)]
  have "pr_name pr \<noteq> a" and c: "c = pilot_double_booking_conflict pl a s e pr"
    by simp_all
  with cur have "p_current_assignment pl \<noteq> Some (pr_name pr)" by auto
  moreover from c have "conflict_type c = DOUBLE_BOOKING_PILOT"
    "affected_pilot_id c = Some (p_id pl)"
    "affected_project_id c = Some (pr_id pr)" "affected_project_name c = Some (pr_name pr)"
    by (simp_all add: pilot_double_booking_conflict_def Conflict_def)
  ultimately show ?thesis using pl(1) pr(1) by blast
qed

text \<open>
  The pilot of the snapshot is recorded on project A and listed by A and B, whose dates
  overlap its own: the one conflict is with B.
\<close>

theorem pilot_double_booking_no_self_conflict_witness:
  "detect_pilot_double_bookings [ex_pilot] [ex_project_A, ex_project_B]
     = Inr [pilot_double_booking_conflict ex_pilot ''A'' (2024, 3, 1) (2024, 3, 10) ex_project_B]
   \<and> (\<exists>pr\<in>set [ex_project_A, ex_project_B].
         affected_project_name
           (pilot_double_booking_conflict ex_pilot ''A'' (2024, 3, 1) (2024, 3, 10) ex_project_B)
           = Some (pr_name pr)
         \<and> p_current_assignment ex_pilot \<noteq> Some (pr_name pr))"
proof -
  have run: "detect_pilot_double_bookings [ex_pilot] [ex_project_A, ex_project_B]
     = Inr [pilot_double_booking_conflict ex_pilot ''A'' (2024, 3, 1) (2024, 3, 10) ex_project_B]"
    by (simp add: detect_pilot_double_bookings_def pilot_project_double_booking_def
        ex_pilot_def ex_project_A_def ex_project_B_def strptime_eval dates_overlap_def)
  from pilot_double_booking_no_self_conflict [OF run, of
      "pilot_double_booking_conflict ex_pilot ''A'' (2024, 3, 1) (2024, 3, 10) ex_project_B"]
  show ?thesis using run by auto
qed

section \<open>Lower case\<close>

text \<open>
  Two strings have the same lower-case form exactly when they differ in letter case at
  most.
\<close>

lemma case_table:
  "length upper_letters = length lower_letters" "distinct upper_letters"
  "distinct lower_letters" "set upper_letters \<inter> set lower_letters = {}"
  by (simp_all add: upper_letters_def lower_letters_def)

lemma zip_table_inj:
  assumes "length us = length ls" and "distinct ls"
    and "(a, l) \<in> set (zip us ls)" and "(b, l) \<in> set (zip us ls)"
  shows "a = b"
proof -
  from assms(3) obtain i where i: "i < length ls" "i < length us" "us ! i = a" "ls ! i = l"
    by (auto simp: in_set_zip)
  from assms(4) obtain j where j: "j < length ls" "j < length us" "us ! j = b" "ls ! j = l"
    by (auto simp: in_set_zip)
  from nth_eq_iff_index_eq [OF assms(2) i(1) j(1)] i(4) j(4) have "i = j" by simp
  with i j show ?thesis by simp
qed

lemma table_lookup_eq_iff:
  assumes len: "length us = length ls" and du: "distinct us" and dl: "distinct ls"
    and disj: "set us \<inter> set ls = {}"
  shows "(case map_of (zip us ls) a of Some l \<Rightarrow> l | None \<Rightarrow> a)
           = (case map_of (zip us ls) b of Some l \<Rightarrow> l | None \<Rightarrow> b)
         \<longleftrightarrow> a = b \<or> (a, b) \<in> set (zip us ls) \<or> (b, a) \<in> set (zip us ls)"
proof -
  have dz: "distinct (map fst (zip us ls))" using len du by simp
  have some: "\<And>x l. map_of (zip us ls) x = Some l \<longleftrightarrow> (x, l) \<in> set (zip us ls)"
    using dz by (simp add: map_of_eq_Some_iff)
  have none: "\<And>x. map_of (zip us ls) x = None \<longleftrightarrow> x \<notin> set us"
  proof -
    fix x
    have "fst ` set (zip us ls) = set us" by (metis len map_fst_zip set_map)
    then show "map_of (zip us ls) x = None \<longleftrightarrow> x \<notin> set us"
      by (simp add: map_of_eq_None_iff)
  qed
  have left: "\<And>x l. (x, l) \<in> set (zip us ls) \<Longrightarrow> x \<in> set us \<and> l \<in> set ls"
    by (auto dest: set_zip_leftD set_zip_rightD)
  show ?thesis
  proof (cases "map_of (zip us ls) a")
    case None
    note na = this
    then have a: "a \<notin> set us" using none by simp
    show ?thesis
    proof (cases "map_of (zip us ls) b")
      case None
      then have "b \<notin> set us" using none by simp
      with a have "(a, b) \<notin> set (zip us ls)" "(b, a) \<notin> set (zip us ls)"
        using left by blast+
      with na None show ?thesis by simp
    next
      case (Some l)
      then have "(b, l) \<in> set (zip us ls)" using some by simp
      then have "b \<in> set us" using left by blast
      with a have "a \<noteq> b" "(a, b) \<notin> set (zip us ls)" using left by blast+
      moreover have "(b, a) \<in> set (zip us ls) \<longleftrightarrow> a = l"
        using some [of b a] Some by auto
      ultimately show ?thesis using na Some by simp
    qed
  next
    case (Some l)
    note sa = this
    then have al: "(a, l) \<in> set (zip us ls)" using some by simp
    then have a: "a \<in> set us" using left by blast
    show ?thesis
    proof (cases "map_of (zip us ls) b")
      case None
      then have "b \<notin> set us" using none by simp
      with a have "a \<noteq> b" "(b, a) \<notin> set (zip us ls)" using left by blast+
      moreover have "(a, b) \<in> set (zip us ls) \<longleftrightarrow> l = b"
        using some [of a b] sa by auto
      ultimately show ?thesis using sa None by simp
    next
      case (Some l')
      then have bl: "(b, l') \<in> set (zip us ls)" using some by simp
      have "l = l' \<longleftrightarrow> a = b"
      proof
        assume "l = l'"
        with al bl show "a = b" using zip_table_inj [OF len dl] by blast
      next
        assume "a = b"
        with sa Some show "l = l'" by simp
      qed
      moreover have "(a, b) \<notin> set (zip us ls)" "(b, a) \<notin> set (zip us ls)"
        using left al bl disj by blast+
      ultimately show ?thesis using sa Some by simp
    qed
  qed
qed

lemma lower_char_eq_iff: "lower_char a = lower_char b \<longleftrightarrow> same_letter a b"
  unfolding lower_char_def same_letter_def
  by (rule table_lookup_eq_iff [OF case_table])

lemma lower_eq_iff: "lower s = lower t \<longleftrightarrow> same_up_to_case s t"
proof (induction s arbitrary: t)
  case Nil
  show ?case by (cases t) (simp_all add: lower_def same_up_to_case_def)
next
  case (Cons a s)
  from Cons.IH show ?case
    by (cases t) (simp_all add: lower_def same_up_to_case_def lower_char_eq_iff)
qed

section \<open>References by id\<close>

lemma find_first_with_id:
  "find (\<lambda>y. ident y = k) xs = Some x \<longleftrightarrow> ident x = k \<and> first_with_id ident xs x"
proof (induction xs)
  case Nil
  show ?case by (simp add: first_with_id_def)
next
  case (Cons y ys)
  show ?case
  proof (cases "ident y = k")
    case True
    have "first_with_id ident (y # ys) x \<and> ident x = k \<longleftrightarrow> x = y"
    proof
      assume "first_with_id ident (y # ys) x \<and> ident x = k"
      then obtain before after where b: "y # ys = before @ x # after"
        "\<forall>z\<in>set before. ident z \<noteq> ident x" and k: "ident x = k"
        unfolding first_with_id_def by blast
      show "x = y"
      proof (cases before)
        case Nil
        with b show ?thesis by simp
      next
        case (Cons z zs)
        with b have "z = y" by simp
        with Cons b(2) k True show ?thesis by simp
      qed
    next
      assume "x = y"
      with True show "first_with_id ident (y # ys) x \<and> ident x = k"
        unfolding first_with_id_def by (auto intro: exI [of _ "[]"])
    qed
    with True show ?thesis by auto
  next
    case False
    have "first_with_id ident (y # ys) x \<and> ident x = k
            \<longleftrightarrow> first_with_id ident ys x \<and> ident x = k"
    proof
      assume "first_with_id ident (y # ys) x \<and> ident x = k"
      then obtain before after where b: "y # ys = before @ x # after"
        "\<forall>z\<in>set before. ident z \<noteq> ident x" and k: "ident x = k"
        unfolding first_with_id_def by blast
      show "first_with_id ident ys x \<and> ident x = k"
      proof (cases before)
        case Nil
        with b k False show ?thesis by simp
      next
        case (Cons z zs)
        with b have "ys = zs @ x # after" "\<forall>z\<in>set zs. ident z \<noteq> ident x" by simp_all
        with k show ?thesis unfolding first_with_id_def by blast
      qed
    next
      assume "first_with_id ident ys x \<and> ident x = k"
      then obtain before after where b: "ys = before @ x # after"
        "\<forall>z\<in>set before. ident z \<noteq> ident x" and k: "ident x = k"
        unfolding first_with_id_def by blast
      from b k False have "y # ys = (y # before) @ x # after"
        "\<forall>z\<in>set (y # before). ident z \<noteq> ident x" by simp_all
      with k show "first_with_id ident (y # ys) x \<and> ident x = k"
        unfolding first_with_id_def by blast
    qed
    with False Cons.IH show ?thesis by auto
  qed
qed

lemma first_with_id_mem: "first_with_id ident xs x \<Longrightarrow> x \<in> set xs"
  unfolding first_with_id_def by auto

lemma first_with_id_distinct:
  assumes "distinct (map ident xs)"
  shows "first_with_id ident xs x \<longleftrightarrow> x \<in> set xs"
proof
  assume "x \<in> set xs"
  then obtain before after where s: "xs = before @ x # after"
    by (auto simp: in_set_conv_decomp)
  with assms have "\<forall>y\<in>set before. ident y \<noteq> ident x" by (auto simp: image_iff)
  with s show "first_with_id ident xs x" unfolding first_with_id_def by blast
qed (rule first_with_id_mem)

lemma get_pilot_by_id_iff:
  "get_pilot_by_id pilots pid = Some pl \<longleftrightarrow> p_id pl = pid \<and> first_with_id p_id pilots pl"
  unfolding get_pilot_by_id_def by (rule find_first_with_id)

lemma get_drone_by_id_iff:
  "get_drone_by_id drones did = Some d \<longleftrightarrow> d_id d = did \<and> first_with_id d_id drones d"
  unfolding get_drone_by_id_def by (rule find_first_with_id)

lemma get_pilot_by_id_None: "get_pilot_by_id pilots pid = None \<longleftrightarrow> pid \<notin> p_id ` set pilots"
  unfolding get_pilot_by_id_def by (auto simp: find_None_iff)

lemma get_drone_by_id_None: "get_drone_by_id drones did = None \<longleftrightarrow> did \<notin> d_id ` set drones"
  unfolding get_drone_by_id_def by (auto simp: find_None_iff)

lemma skill_idx_spec: "skill_idx s = spec_skill_rank s"
  by (simp add: skill_idx_def skill_order_def spec_skill_rank_def)

section \<open>Skill mismatches\<close>

lemma skill_mismatch_mem:
  "c \<in> set (detect_skill_mismatches pilots projects) \<longleftrightarrow>
     (\<exists>pr\<in>set projects. \<exists>pl rs.
         pr_required_skill_level pr = Some rs \<and> rs \<noteq> []
       \<and> p_id pl \<in> set (pr_assigned_pilots pr)
       \<and> first_with_id p_id pilots pl
       \<and> spec_skill_rank (p_skill_level pl) < spec_skill_rank rs
       \<and> c = skill_conflict pl pr rs)" (is "?L \<longleftrightarrow> ?R")
proof
  assume ?L
  then obtain pr where pr: "pr \<in> set projects"
    and c: "c \<in> set (case pr_required_skill_level pr of
             None \<Rightarrow> []
           | Some required_skill \<Rightarrow>
               if required_skill = [] then []
               else
                 (let required_idx = skill_idx required_skill in
                  concat (map
                    (\<lambda>pilot_id.
                       (case get_pilot_by_id pilots pilot_id of
                          None \<Rightarrow> []
                        | Some pl \<Rightarrow>
                            (let pilot_idx = skill_idx (p_skill_level pl)
                             in if pilot_idx < required_idx
                                then [skill_conflict pl pr required_skill]
                                else [])))
                    (pr_assigned_pilots pr))))"
    unfolding detect_skill_mismatches_def by auto
  from c obtain rs where rs: "pr_required_skill_level pr = Some rs" "rs \<noteq> []"
    by (cases "pr_required_skill_level pr") (auto split: if_splits)
  with c obtain pid where pid: "pid \<in> set (pr_assigned_pilots pr)"
    and c2: "c \<in> set (case get_pilot_by_id pilots pid of
                          None \<Rightarrow> []
                        | Some pl \<Rightarrow>
                            if skill_idx (p_skill_level pl) < skill_idx rs
                            then [skill_conflict pl pr rs] else [])"
    by (auto simp: Let_def)
  from c2 obtain pl where pl: "get_pilot_by_id pilots pid = Some pl"
    "skill_idx (p_skill_level pl) < skill_idx rs" "c = skill_conflict pl pr rs"
    by (cases "get_pilot_by_id pilots pid") (auto split: if_splits)
  from pl(1) have "p_id pl = pid" "first_with_id p_id pilots pl"
    by (simp_all add: get_pilot_by_id_iff)
  with pr rs pid pl(2,3) show ?R by (auto simp: skill_idx_spec)
next
  assume ?R
  then obtain pr pl rs where pr: "pr \<in> set projects"
    and rs: "pr_required_skill_level pr = Some rs" "rs \<noteq> []"
    and pl: "p_id pl \<in> set (pr_assigned_pilots pr)" "first_with_id p_id pilots pl"
      "spec_skill_rank (p_skill_level pl) < spec_skill_rank rs"
      "c = skill_conflict pl pr rs"
    by blast
  from pl(2) have "get_pilot_by_id pilots (p_id pl) = Some pl"
    by (simp add: get_pilot_by_id_iff)
  with pr rs pl show ?L
    unfolding detect_skill_mismatches_def
    by (force simp: Let_def skill_idx_spec)
qed

text \<open>
  Claim C4, as amended. The skill rule emits a conflict exactly for the pairs of a project
  with a required skill level and a pilot whose id the project lists, who is the first
  record of the snapshot with that id, and whose rank is strictly below the required rank;
  where the ids of the snapshot are unique these are all the listed pilots of the snapshot.
  The conflict is of medium severity, and the ranks are those of the specification:
  Beginner 0, Intermediate 1, Advanced 2, Expert 3, any other string 0, on both sides.
\<close>

theorem skill_mismatch_iff:
  "(c \<in> set (detect_skill_mismatches pilots projects) \<longleftrightarrow>
     (\<exists>pr\<in>set projects. \<exists>pl rs.
         pr_required_skill_level pr = Some rs \<and> rs \<noteq> []
       \<and> p_id pl \<in> set (pr_assigned_pilots pr)
       \<and> first_with_id p_id pilots pl
       \<and> spec_skill_rank (p_skill_level pl) < spec_skill_rank rs
       \<and> c = skill_conflict pl pr rs))
   \<and> (distinct (map p_id pilots) \<longrightarrow>
       (c \<in> set (detect_skill_mismatches pilots projects) \<longleftrightarrow>
         (\<exists>pr\<in>set projects. \<exists>pl\<in>set pilots. \<exists>rs.
             pr_required_skill_level pr = Some rs \<and> rs \<noteq> []
           \<and> p_id pl \<in> set (pr_assigned_pilots pr)
           \<and> spec_skill_rank (p_skill_level pl) < spec_skill_rank rs
           \<and> c = skill_conflict pl pr rs)))
   \<and> severity (skill_conflict pl pr rs) = ''Medium''
   \<and> conflict_type (skill_conflict pl pr rs) = SKILL_MISMATCH
   \<and> affected_pilot_id (skill_conflict pl pr rs) = Some (p_id pl)
   \<and> affected_project_id (skill_conflict pl pr rs) = Some (pr_id pr)"
proof (intro conjI impI)
  show "c \<in> set (detect_skill_mismatches pilots projects) \<longleftrightarrow>
     (\<exists>pr\<in>set projects. \<exists>pl rs.
         pr_required_skill_level pr = Some rs \<and> rs \<noteq> []
       \<and> p_id pl \<in> set (pr_assigned_pilots pr)
       \<and> first_with_id p_id pilots pl
       \<and> spec_skill_rank (p_skill_level pl) < spec_skill_rank rs
       \<and> c = skill_conflict pl pr rs)"
    by (rule skill_mismatch_mem)
next
  assume "distinct (map p_id pilots)"
  then show "c \<in> set (detect_skill_mismatches pilots projects) \<longleftrightarrow>
         (\<exists>pr\<in>set projects. \<exists>pl\<in>set pilots. \<exists>rs.
             pr_required_skill_level pr = Some rs \<and> rs \<noteq> []
           \<and> p_id pl \<in> set (pr_assigned_pilots pr)
           \<and> spec_skill_rank (p_skill_level pl) < spec_skill_rank rs
           \<and> c = skill_conflict pl pr rs)"
    unfolding skill_mismatch_mem by (simp add: first_with_id_distinct) blast
qed (simp_all add: skill_conflict_def Conflict_def)

text \<open>
  The claim as written fails where two records share an id: the second record of id P001
  is in the snapshot, is listed by project A and ranks below the level A requires, and the
  rule, which looks at the first record of that id only, emits nothing.
\<close>

theorem skill_mismatch_duplicate_id_counterexample:
  "ex_pilot_dup \<in> set [ex_pilot, ex_pilot_dup]
   \<and> p_id ex_pilot_dup \<in> set (pr_assigned_pilots ex_project_A)
   \<and> pr_required_skill_level ex_project_A = Some ''Intermediate''
   \<and> spec_skill_rank (p_skill_level ex_pilot_dup) < spec_skill_rank ''Intermediate''
   \<and> detect_skill_mismatches [ex_pilot, ex_pilot_dup] [ex_project_A] = []"
  by (simp add: detect_skill_mismatches_def get_pilot_by_id_def skill_idx_def skill_order_def
      spec_skill_rank_def ex_pilot_def ex_pilot_2_def ex_pilot_dup_def ex_project_A_def)

text \<open>
  Project B2 requires Advanced and lists the Intermediate pilot, an unknown id and the
  Beginner pilot, who is the second record of the snapshot: both pilots are in conflict
  with it and none with project A.
\<close>

theorem skill_mismatch_iff_witness:
  "distinct (map p_id [ex_pilot, ex_pilot_2])
   \<and> skill_conflict ex_pilot_2 ex_project_B2 ''Advanced''
       \<in> set (detect_skill_mismatches [ex_pilot, ex_pilot_2] [ex_project_A, ex_project_B2])
   \<and> detect_skill_mismatches [ex_pilot, ex_pilot_2] [ex_project_A, ex_project_B2]
       = [skill_conflict ex_pilot ex_project_B2 ''Advanced'',
          skill_conflict ex_pilot_2 ex_project_B2 ''Advanced'']"
proof -
  have d: "distinct (map p_id [ex_pilot, ex_pilot_2])"
    by (simp add: ex_pilot_def ex_pilot_2_def)
  have run: "detect_skill_mismatches [ex_pilot, ex_pilot_2] [ex_project_A, ex_project_B2]
       = [skill_conflict ex_pilot ex_project_B2 ''Advanced'',
          skill_conflict ex_pilot_2 ex_project_B2 ''Advanced'']"
    by (simp add: detect_skill_mismatches_def get_pilot_by_id_def skill_idx_def skill_order_def
      ex_pilot_def ex_pilot_2_def ex_project_A_def ex_project_B_def ex_project_B2_def)
  have rhs: "\<exists>pr\<in>set [ex_project_A, ex_project_B2]. \<exists>pl\<in>set [ex_pilot, ex_pilot_2]. \<exists>rs.
             pr_required_skill_level pr = Some rs \<and> rs \<noteq> []
           \<and> p_id pl \<in> set (pr_assigned_pilots pr)
           \<and> spec_skill_rank (p_skill_level pl) < spec_skill_rank rs
           \<and> skill_conflict ex_pilot_2 ex_project_B2 ''Advanced'' = skill_conflict pl pr rs"
    by (intro bexI [of _ ex_project_B2] bexI [of _ ex_pilot_2] exI [of _ "''Advanced''"])
      (simp_all add: spec_skill_rank_def ex_pilot_2_def ex_project_B_def ex_project_B2_def)
  from skill_mismatch_iff [of "skill_conflict ex_pilot_2 ex_project_B2 ''Advanced''"
      "[ex_pilot, ex_pilot_2]" "[ex_project_A, ex_project_B2]"] d rhs
  have "skill_conflict ex_pilot_2 ex_project_B2 ''Advanced''
       \<in> set (detect_skill_mismatches [ex_pilot, ex_pilot_2] [ex_project_A, ex_project_B2])"
    by blast
  with d run show ?thesis by blast
qed

section \<open>Location mismatches\<close>







section \<open>The check before an assignment\<close>

lemma pilot_assignment_checks_fields:
  "c \<in> set (pilot_assignment_checks pl project_id s e certs skill loc) \<Longrightarrow>
     affected_drone_id c = None \<and> affected_pilot_id c = Some (p_id pl)"
  unfolding pilot_assignment_checks_def Let_def Conflict_def
  by (auto split: option.splits if_splits)

lemma drone_assignment_checks_fields:
  "c \<in> set (drone_assignment_checks d project_id s e caps loc) \<Longrightarrow>
     affected_pilot_id c = None \<and> affected_drone_id c = Some (d_id d)"
  unfolding drone_assignment_checks_def Let_def Conflict_def
  by (auto split: option.splits if_splits)

lemma check_assignment_no_pilot:
  assumes "c \<in> set (check_assignment_conflicts pilots drones None drone_id project_id s e
                       certs caps skill loc)"
  shows "affected_pilot_id c = None"
proof (cases drone_id)
  case None
  with assms show ?thesis by (simp add: check_assignment_conflicts_def)
next
  case (Some did)
  show ?thesis
  proof (cases "get_drone_by_id drones did")
    case None
    with assms Some show ?thesis
      by (simp add: check_assignment_conflicts_def split: if_splits)
  next
    case (Some d)
    with assms \<open>drone_id = Some did\<close>
    have "c \<in> set (drone_assignment_checks d project_id s e caps loc)"
      by (simp add: check_assignment_conflicts_def split: if_splits)
    then show ?thesis by (simp add: drone_assignment_checks_fields)
  qed
qed

lemma check_assignment_no_drone:
  assumes "c \<in> set (check_assignment_conflicts pilots drones pilot_id None project_id s e
                       certs caps skill loc)"
  shows "affected_drone_id c = None"
proof (cases pilot_id)
  case None
  with assms show ?thesis by (simp add: check_assignment_conflicts_def)
next
  case (Some pid)
  show ?thesis
  proof (cases "get_pilot_by_id pilots pid")
    case None
    with assms Some show ?thesis
      by (simp add: check_assignment_conflicts_def split: if_splits)
  next
    case (Some pl)
    with assms \<open>pilot_id = Some pid\<close>
    have "c \<in> set (pilot_assignment_checks pl project_id s e certs skill loc)"
      by (simp add: check_assignment_conflicts_def split: if_splits)
    then show ?thesis by (simp add: pilot_assignment_checks_fields)
  qed
qed

text \<open>
  Claim C10. Where no pilot of the snapshot has the given pilot id, the check returns what
  it returns without a pilot id, and no conflict of the result names a pilot; where
  moreover the drone id is that of a drone of the snapshot, the result is the list of
  checks of the first drone with that id. The same holds with pilot and drone exchanged.
  The check is a total function: it returns a list on every input.
\<close>

theorem unknown_reference_is_skipped:
  "(pid \<notin> p_id ` set pilots \<longrightarrow>
      check_assignment_conflicts pilots drones (Some pid) drone_id project_id s e
          certs caps skill loc
        = check_assignment_conflicts pilots drones None drone_id project_id s e
            certs caps skill loc
    \<and> (\<forall>c\<in>set (check_assignment_conflicts pilots drones (Some pid) drone_id project_id s e
                     certs caps skill loc). affected_pilot_id c = None)
    \<and> (\<forall>d. first_with_id d_id drones d \<and> d_id d \<noteq> [] \<longrightarrow>
          check_assignment_conflicts pilots drones (Some pid) (Some (d_id d)) project_id s e
              certs caps skill loc
            = drone_assignment_checks d project_id s e caps loc))
   \<and> (did \<notin> d_id ` set drones \<longrightarrow>
      check_assignment_conflicts pilots drones pilot_id (Some did) project_id s e
          certs caps skill loc
        = check_assignment_conflicts pilots drones pilot_id None project_id s e
            certs caps skill loc
    \<and> (\<forall>c\<in>set (check_assignment_conflicts pilots drones pilot_id (Some did) project_id s e
                     certs caps skill loc). affected_drone_id c = None)
    \<and> (\<forall>pl. first_with_id p_id pilots pl \<and> p_id pl \<noteq> [] \<longrightarrow>
          check_assignment_conflicts pilots drones (Some (p_id pl)) (Some did) project_id s e
              certs caps skill loc
            = pilot_assignment_checks pl project_id s e certs skill loc))"
proof (intro conjI impI allI)
  assume "pid \<notin> p_id ` set pilots"
  then have np: "get_pilot_by_id pilots pid = None" by (simp add: get_pilot_by_id_None)
  then show eq: "check_assignment_conflicts pilots drones (Some pid) drone_id project_id s e
          certs caps skill loc
        = check_assignment_conflicts pilots drones None drone_id project_id s e
            certs caps skill loc"
    by (simp add: check_assignment_conflicts_def)
  show "\<forall>c\<in>set (check_assignment_conflicts pilots drones (Some pid) drone_id project_id s e
                     certs caps skill loc). affected_pilot_id c = None"
    unfolding eq using check_assignment_no_pilot by blast
  fix d
  assume "first_with_id d_id drones d \<and> d_id d \<noteq> []"
  then have "get_drone_by_id drones (d_id d) = Some d" "d_id d \<noteq> []"
    by (simp_all add: get_drone_by_id_iff)
  with np show "check_assignment_conflicts pilots drones (Some pid) (Some (d_id d)) project_id
      s e certs caps skill loc = drone_assignment_checks d project_id s e caps loc"
    by (simp add: check_assignment_conflicts_def)
next
  assume "did \<notin> d_id ` set drones"
  then have nd: "get_drone_by_id drones did = None" by (simp add: get_drone_by_id_None)
  then show eq: "check_assignment_conflicts pilots drones pilot_id (Some did) project_id s e
          certs caps skill loc
        = check_assignment_conflicts pilots drones pilot_id None project_id s e
            certs caps skill loc"
    by (simp add: check_assignment_conflicts_def)
  show "\<forall>c\<in>set (check_assignment_conflicts pilots drones pilot_id (Some did) project_id s e
                     certs caps skill loc). affected_drone_id c = None"
    unfolding eq using check_assignment_no_drone by blast
  fix pl
  assume "first_with_id p_id pilots pl \<and> p_id pl \<noteq> []"
  then have "get_pilot_by_id pilots (p_id pl) = Some pl" "p_id pl \<noteq> []"
    by (simp_all add: get_pilot_by_id_iff)
  with nd show "check_assignment_conflicts pilots drones (Some (p_id pl)) (Some did) project_id
      s e certs caps skill loc = pilot_assignment_checks pl project_id s e certs skill loc"
    by (simp add: check_assignment_conflicts_def)
qed

text \<open>
  No pilot has the id P999 and no drone the id D999. With P999 and the second drone of the
  snapshot the check returns the three conflicts of that drone; with the second pilot and
  D999 it returns the two conflicts of that pilot.
\<close>

theorem unknown_reference_is_skipped_witness:
  "check_assignment_conflicts [ex_pilot, ex_pilot_2] [ex_drone, ex_drone_2] (Some ''P999'')
       (Some ''D002'') ''PRJ-B'' (2024, 3, 5) (2024, 3, 15) [''DGCA''] [''LiDAR'']
       ''Advanced'' ''Pune''
     = drone_assignment_checks ex_drone_2 ''PRJ-B'' (2024, 3, 5) (2024, 3, 15) [''LiDAR'']
         ''Pune''
   \<and> length (drone_assignment_checks ex_drone_2 ''PRJ-B'' (2024, 3, 5) (2024, 3, 15)
         [''LiDAR''] ''Pune'') = 3
   \<and> check_assignment_conflicts [ex_pilot, ex_pilot_2] [ex_drone, ex_drone_2] (Some ''P002'')
       (Some ''D999'') ''PRJ-B'' (2024, 3, 5) (2024, 3, 15) [''DGCA''] [''LiDAR'']
       ''Advanced'' ''Pune''
     = pilot_assignment_checks ex_pilot_2 ''PRJ-B'' (2024, 3, 5) (2024, 3, 15) [''DGCA'']
         ''Advanced'' ''Pune''
   \<and> length (pilot_assignment_checks ex_pilot_2 ''PRJ-B'' (2024, 3, 5) (2024, 3, 15)
         [''DGCA''] ''Advanced'' ''Pune'') = 2"
proof -
  have np: "''P999'' \<notin> p_id ` set [ex_pilot, ex_pilot_2]"
    by (simp add: ex_pilot_def ex_pilot_2_def)
  have nd: "''D999'' \<notin> d_id ` set [ex_drone, ex_drone_2]"
    by (simp add: ex_drone_def ex_drone_2_def)
  have d2: "first_with_id d_id [ex_drone, ex_drone_2] ex_drone_2 \<and> d_id ex_drone_2 \<noteq> []"
    "d_id ex_drone_2 = ''D002''"
    by (simp_all add: first_with_id_distinct ex_drone_def ex_drone_2_def)
  have p2: "first_with_id p_id [ex_pilot, ex_pilot_2] ex_pilot_2 \<and> p_id ex_pilot_2 \<noteq> []"
    "p_id ex_pilot_2 = ''P002''"
    by (simp_all add: first_with_id_distinct ex_pilot_def ex_pilot_2_def)
  have ld: "length (drone_assignment_checks ex_drone_2 ''PRJ-B'' (2024, 3, 5) (2024, 3, 15)
         [''LiDAR''] ''Pune'') = 3"
    by (simp add: drone_assignment_checks_def Let_def lower_eval ex_drone_2_def)
  have lp: "length (pilot_assignment_checks ex_pilot_2 ''PRJ-B'' (2024, 3, 5) (2024, 3, 15)
         [''DGCA''] ''Advanced'' ''Pune'') = 2"
    by (simp add: pilot_assignment_checks_def Let_def lower_eval ex_pilot_2_def
        skill_idx_def skill_order_def)
  note skipped = unknown_reference_is_skipped [of "''P999''" "[ex_pilot, ex_pilot_2]"
      "[ex_drone, ex_drone_2]" _ "''PRJ-B''" "(2024, 3, 5)" "(2024, 3, 15)" "[''DGCA'']"
      "[''LiDAR'']" "''Advanced''" "''Pune''" "''D999''"]
  from skipped np d2 have a: "check_assignment_conflicts [ex_pilot, ex_pilot_2]
       [ex_drone, ex_drone_2] (Some ''P999'') (Some ''D002'') ''PRJ-B'' (2024, 3, 5)
       (2024, 3, 15) [''DGCA''] [''LiDAR''] ''Advanced'' ''Pune''
     = drone_assignment_checks ex_drone_2 ''PRJ-B'' (2024, 3, 5) (2024, 3, 15) [''LiDAR'']
         ''Pune''"
    by metis
  from skipped nd p2 have b: "check_assignment_conflicts [ex_pilot, ex_pilot_2]
       [ex_drone, ex_drone_2] (Some ''P002'') (Some ''D999'') ''PRJ-B'' (2024, 3, 5)
       (2024, 3, 15) [''DGCA''] [''LiDAR''] ''Advanced'' ''Pune''
     = pilot_assignment_checks ex_pilot_2 ''PRJ-B'' (2024, 3, 5) (2024, 3, 15) [''DGCA'']
         ''Advanced'' ''Pune''"
    by metis
  from a b ld lp show ?thesis by blast
qed

section \<open>Drone maintenance\<close>

lemma drone_maintenance_check_total:
  assumes "strptime_ymd (pr_start_date pr) = Inr s" and "strptime_ymd (pr_end_date pr) = Inr e"
  shows "\<exists>ds. drone_maintenance_check drones pr did = Inr ds"
  using assms unfolding drone_maintenance_check_def Let_def
  by (simp split: option.splits)

lemma drone_maintenance_check_emits:
  assumes "drone_maintenance_check drones pr did = Inr ds"
    and "get_drone_by_id drones did = Some d" and "d_next_maintenance_date d = Some m"
    and "strptime_ymd (pr_start_date pr) = Inr s" and "strptime_ymd (pr_end_date pr) = Inr e"
    and "s \<le> m" and "m \<le> e"
  shows "maintenance_window_conflict d m pr \<in> set ds"
  using assms unfolding drone_maintenance_check_def Let_def
  by auto

text \<open>
  Claim C3, as amended. On a snapshot for which the maintenance rule returns a list, the
  list holds a conflict of medium severity for every project and every drone whose id the
  project lists, that is the first record of the snapshot with that id, and whose next
  maintenance date lies between the start and the end date of the project, both included,
  whatever the status of the drone. The rule returns a list where the two dates of every
  project parse.
\<close>

theorem maintenance_window_conflict_emitted:
  "(detect_drone_maintenance_conflicts drones projects = Inr cs \<longrightarrow>
      (\<forall>pr\<in>set projects. \<forall>d m s e.
          d_id d \<in> set (pr_assigned_drones pr) \<and> first_with_id d_id drones d
        \<and> d_next_maintenance_date d = Some m
        \<and> strptime_ymd (pr_start_date pr) = Inr s \<and> strptime_ymd (pr_end_date pr) = Inr e
        \<and> s \<le> m \<and> m \<le> e
        \<longrightarrow> maintenance_window_conflict d m pr \<in> set cs))
   \<and> ((\<forall>pr\<in>set projects. \<exists>s e. strptime_ymd (pr_start_date pr) = Inr s
                                \<and> strptime_ymd (pr_end_date pr) = Inr e)
        \<longrightarrow> (\<exists>cs'. detect_drone_maintenance_conflicts drones projects = Inr cs'))
   \<and> severity (maintenance_window_conflict d m pr) = ''Medium''
   \<and> conflict_type (maintenance_window_conflict d m pr) = DRONE_MAINTENANCE
   \<and> affected_drone_id (maintenance_window_conflict d m pr) = Some (d_id d)
   \<and> affected_project_id (maintenance_window_conflict d m pr) = Some (pr_id pr)"
proof (intro conjI impI ballI allI)
  fix pr d m s e
  assume run: "detect_drone_maintenance_conflicts drones projects = Inr cs"
    and pr: "pr \<in> set projects"
    and h: "d_id d \<in> set (pr_assigned_drones pr) \<and> first_with_id d_id drones d
        \<and> d_next_maintenance_date d = Some m
        \<and> strptime_ymd (pr_start_date pr) = Inr s \<and> strptime_ymd (pr_end_date pr) = Inr e
        \<and> s \<le> m \<and> m \<le> e"
  from h have look: "get_drone_by_id drones (d_id d) = Some d"
    by (simp add: get_drone_by_id_iff)
  from run have outer: "collect (\<lambda>pr. collect (drone_maintenance_check drones pr)
      (pr_assigned_drones pr)) projects = Inr cs"
    by (simp add: detect_drone_maintenance_conflicts_def)
  from collect_all_Inr [OF outer pr] obtain ds where
    inner: "collect (drone_maintenance_check drones pr) (pr_assigned_drones pr) = Inr ds"
    by blast
  from h collect_all_Inr [OF inner, of "d_id d"] obtain es where
    chk: "drone_maintenance_check drones pr (d_id d) = Inr es"
    by blast
  from drone_maintenance_check_emits [OF chk look] h
  have "maintenance_window_conflict d m pr \<in> set es" by blast
  with collect_emits [OF inner _ chk] h have "maintenance_window_conflict d m pr \<in> set ds"
    by blast
  with collect_emits [OF outer pr inner]
  show "maintenance_window_conflict d m pr \<in> set cs" by blast
next
  assume ok: "\<forall>pr\<in>set projects. \<exists>s e. strptime_ymd (pr_start_date pr) = Inr s
                                \<and> strptime_ymd (pr_end_date pr) = Inr e"
  have "\<forall>pr\<in>set projects. \<exists>ds. collect (drone_maintenance_check drones pr)
      (pr_assigned_drones pr) = Inr ds"
  proof
    fix pr assume "pr \<in> set projects"
    with ok obtain s e where "strptime_ymd (pr_start_date pr) = Inr s"
      "strptime_ymd (pr_end_date pr) = Inr e" by blast
    then have "\<forall>did\<in>set (pr_assigned_drones pr).
        \<exists>ds. drone_maintenance_check drones pr did = Inr ds"
      using drone_maintenance_check_total by blast
    from collect_total [OF this]
    show "\<exists>ds. collect (drone_maintenance_check drones pr) (pr_assigned_drones pr) = Inr ds"
      by blast
  qed
  from collect_total [OF this]
  show "\<exists>cs'. detect_drone_maintenance_conflicts drones projects = Inr cs'"
    unfolding detect_drone_maintenance_conflicts_def by blast
qed (simp_all add: maintenance_window_conflict_def Conflict_def)

text \<open>
  The claim as written fails where two records share an id: the second record of id D001
  is in the snapshot, is listed by project B and is due for maintenance on the last day of
  B, and the rule, which looks at the first record of that id only, emits nothing.
\<close>

theorem maintenance_duplicate_id_counterexample:
  "ex_drone \<in> set [ex_drone_unscheduled, ex_drone]
   \<and> d_id ex_drone \<in> set (pr_assigned_drones ex_project_B)
   \<and> d_next_maintenance_date ex_drone = Some (2024, 3, 15)
   \<and> strptime_ymd (pr_start_date ex_project_B) = Inr (2024, 3, 5)
   \<and> strptime_ymd (pr_end_date ex_project_B) = Inr (2024, 3, 15)
   \<and> detect_drone_maintenance_conflicts [ex_drone_unscheduled, ex_drone] [ex_project_B] = Inr []"
  by (simp add: detect_drone_maintenance_conflicts_def drone_maintenance_check_def
      get_drone_by_id_def strptime_eval ex_drone_def ex_drone_unscheduled_def ex_project_B_def)

text \<open>
  Project B2 runs from 5 to 15 March 2024. The first drone, which is available, is due on
  the last day and the second, which is in maintenance, on the first day: the rule returns
  a conflict of medium severity for each, after the critical one of the second drone.
\<close>

theorem maintenance_window_conflict_emitted_witness:
  "detect_drone_maintenance_conflicts [ex_drone, ex_drone_2] [ex_project_A, ex_project_B2]
     = Inr [maintenance_window_conflict ex_drone (2024, 3, 15) ex_project_B2,
            maintenance_status_conflict ex_drone_2 ex_project_B2,
            maintenance_window_conflict ex_drone_2 (2024, 3, 5) ex_project_B2]
   \<and> maintenance_window_conflict ex_drone (2024, 3, 15) ex_project_B2
       \<in> set [maintenance_window_conflict ex_drone (2024, 3, 15) ex_project_B2,
               maintenance_status_conflict ex_drone_2 ex_project_B2,
               maintenance_window_conflict ex_drone_2 (2024, 3, 5) ex_project_B2]
   \<and> d_status ex_drone = ''Available'' \<and> d_status ex_drone_2 = ''Maintenance''
   \<and> (\<exists>cs'. detect_drone_maintenance_conflicts [ex_drone, ex_drone_2]
               [ex_project_A, ex_project_B2] = Inr cs')"
proof -
  have run: "detect_drone_maintenance_conflicts [ex_drone, ex_drone_2]
       [ex_project_A, ex_project_B2]
     = Inr [maintenance_window_conflict ex_drone (2024, 3, 15) ex_project_B2,
            maintenance_status_conflict ex_drone_2 ex_project_B2,
            maintenance_window_conflict ex_drone_2 (2024, 3, 5) ex_project_B2]"
    by (simp add: detect_drone_maintenance_conflicts_def drone_maintenance_check_def
        get_drone_by_id_def strptime_eval ex_drone_def ex_drone_2_def ex_project_A_def
        ex_project_B_def ex_project_B2_def)
  have parse: "\<forall>pr\<in>set [ex_project_A, ex_project_B2].
      \<exists>s e. strptime_ymd (pr_start_date pr) = Inr s \<and> strptime_ymd (pr_end_date pr) = Inr e"
    by (simp add: strptime_eval ex_project_A_def ex_project_B_def ex_project_B2_def)
  have h: "d_id ex_drone \<in> set (pr_assigned_drones ex_project_B2)
        \<and> first_with_id d_id [ex_drone, ex_drone_2] ex_drone
        \<and> d_next_maintenance_date ex_drone = Some (2024, 3, 15)
        \<and> strptime_ymd (pr_start_date ex_project_B2) = Inr (2024, 3, 5)
        \<and> strptime_ymd (pr_end_date ex_project_B2) = Inr (2024, 3, 15)
        \<and> (2024, 3, 5) \<le> ((2024, 3, 15) :: date) \<and> (2024, 3, 15) \<le> ((2024, 3, 15) :: date)"
    by (simp add: first_with_id_distinct strptime_eval ex_drone_def ex_drone_2_def
        ex_project_B_def ex_project_B2_def)
  have st: "d_status ex_drone = ''Available''" "d_status ex_drone_2 = ''Maintenance''"
    by (simp_all add: ex_drone_def ex_drone_2_def)
  note emitted = maintenance_window_conflict_emitted [of "[ex_drone, ex_drone_2]"
      "[ex_project_A, ex_project_B2]"
      "[maintenance_window_conflict ex_drone (2024, 3, 15) ex_project_B2,
        maintenance_status_conflict ex_drone_2 ex_project_B2,
        maintenance_window_conflict ex_drone_2 (2024, 3, 5) ex_project_B2]"]
  from emitted run h have m: "maintenance_window_conflict ex_drone (2024, 3, 15) ex_project_B2
       \<in> set [maintenance_window_conflict ex_drone (2024, 3, 15) ex_project_B2,
               maintenance_status_conflict ex_drone_2 ex_project_B2,
               maintenance_window_conflict ex_drone_2 (2024, 3, 5) ex_project_B2]"
    by simp
  from emitted parse have "\<exists>cs'. detect_drone_maintenance_conflicts [ex_drone, ex_drone_2]
               [ex_project_A, ex_project_B2] = Inr cs'"
    by blast
  with run m st show ?thesis by blast
qed

section \<open>Dates that do not parse\<close>


section \<open>Scores of the replacement pilots\<close>

lemma missing_empty_iff:
  "filter (\<lambda>c. c \<notin> set have) required = [] \<longleftrightarrow> set required \<subseteq> set have"
  by (auto simp: filter_empty_conv)

lemma score_pilot_spec:
  "pc_pilot (score_pilot required_certs required_skill idx loc pl) = pl"
  "pc_score (score_pilot required_certs required_skill idx loc pl) =
       (if set required_certs \<subseteq> set (p_certifications pl) then 30 else 0)
     + (if idx \<le> spec_skill_rank (p_skill_level pl) then 25 else 0)
     + (if truthy loc \<and> same_up_to_case (p_current_location pl) (str_opt loc) then 25 else 0)
     + 5 * int (spec_skill_rank (p_skill_level pl))"
  "pc_issues (score_pilot required_certs required_skill idx loc pl) =
       (if set required_certs \<subseteq> set (p_certifications pl) then []
        else [''Missing certs: ''
              @ join '', '' (filter (\<lambda>c. c \<notin> set (p_certifications pl)) required_certs)])
     @ (if idx \<le> spec_skill_rank (p_skill_level pl) then []
        else [''Skill level '' @ p_skill_level pl @ '' below required ''
              @ str_opt required_skill])
     @ (if truthy loc \<and> \<not> same_up_to_case (p_current_location pl) (str_opt loc)
        then [''In '' @ p_current_location pl @ '', not '' @ str_opt loc] else [])"
  "pc_recommended (score_pilot required_certs required_skill idx loc pl)
     \<longleftrightarrow> pc_issues (score_pilot required_certs required_skill idx loc pl) = []"
  unfolding score_pilot_def Let_def
  by (simp_all add: missing_empty_iff skill_idx_spec lower_eq_iff split: prod.splits)

lemma set_sort_reverse: "set (sort_reverse key xs) = set xs"
  by (simp add: sort_reverse_def)

lemma pilot_candidates_set:
  "set (pilot_candidates required_certs required_skill loc exclude all_pilots) =
     score_pilot required_certs required_skill
         (case required_skill of None \<Rightarrow> 0 | Some s \<Rightarrow> spec_skill_rank s) loc
       ` {pl \<in> set all_pilots. p_status pl = ''Available'' \<and> Some (p_id pl) \<noteq> exclude}"
  unfolding pilot_candidates_def Let_def
  by (auto simp: skill_idx_spec split: option.splits)

lemma rank_pilot_candidates_subset:
  "set (rank_pilot_candidates required_certs required_skill loc exclude all_pilots)
     \<subseteq> set (pilot_candidates required_certs required_skill loc exclude all_pilots)"
  unfolding rank_pilot_candidates_def
  using set_take_subset [of 5] by (fastforce simp: set_sort_reverse)

text \<open>
  Claim C6, as amended. The candidates that \<open>_find_replacement_pilot\<close> returns are among
  those it builds, one for each pilot of the pool that is available and is not the
  excluded one. The score of such a candidate is 30 if the pilot holds every required
  certification, plus 25 if its rank is at least the required rank, plus 25 if a preferred
  location is given and is the location of the pilot up to letter case, plus 5 times its
  rank. Its issues are, in this order, one issue that lists all the missing certifications,
  one for a rank below the required rank, and one for a location that is given and
  differs. It is recommended exactly when it has no issue.
\<close>

theorem pilot_candidate_score:
  "(\<forall>cand\<in>set (rank_pilot_candidates required_certs required_skill loc exclude all_pilots).
       cand \<in> set (pilot_candidates required_certs required_skill loc exclude all_pilots))
   \<and> (cand \<in> set (pilot_candidates required_certs required_skill loc exclude all_pilots) \<longleftrightarrow>
       (\<exists>pl\<in>set all_pilots.
           p_status pl = ''Available'' \<and> Some (p_id pl) \<noteq> exclude
         \<and> pc_pilot cand = pl
         \<and> pc_score cand =
               (if set required_certs \<subseteq> set (p_certifications pl) then 30 else 0)
             + (if (case required_skill of None \<Rightarrow> 0 | Some s \<Rightarrow> spec_skill_rank s)
                     \<le> spec_skill_rank (p_skill_level pl) then 25 else 0)
             + (if truthy loc \<and> same_up_to_case (p_current_location pl) (str_opt loc)
                then 25 else 0)
             + 5 * int (spec_skill_rank (p_skill_level pl))
         \<and> pc_issues cand =
               (if set required_certs \<subseteq> set (p_certifications pl) then []
                else [''Missing certs: ''
                      @ join '', ''
                          (filter (\<lambda>c. c \<notin> set (p_certifications pl)) required_certs)])
             @ (if (case required_skill of None \<Rightarrow> 0 | Some s \<Rightarrow> spec_skill_rank s)
                     \<le> spec_skill_rank (p_skill_level pl) then []
                else [''Skill level '' @ p_skill_level pl @ '' below required ''
                      @ str_opt required_skill])
             @ (if truthy loc \<and> \<not> same_up_to_case (p_current_location pl) (str_opt loc)
                then [''In '' @ p_current_location pl @ '', not '' @ str_opt loc] else [])
         \<and> (pc_recommended cand \<longleftrightarrow> pc_issues cand = [])))"
  (is "?sub \<and> (?L \<longleftrightarrow> ?R)")
proof (intro conjI)
  show ?sub using rank_pilot_candidates_subset by blast
  show "?L \<longleftrightarrow> ?R"
  proof
    assume ?L
    then obtain pl where pl: "pl \<in> set all_pilots" "p_status pl = ''Available''"
      "Some (p_id pl) \<noteq> exclude"
      and c: "cand = score_pilot required_certs required_skill
         (case required_skill of None \<Rightarrow> 0 | Some s \<Rightarrow> spec_skill_rank s) loc pl"
      unfolding pilot_candidates_set by blast
    show ?R
      by (rule bexI [OF _ pl(1)]) (simp only: c score_pilot_spec pl(2,3) simp_thms)
  next
    assume ?R
    then obtain pl where pl: "pl \<in> set all_pilots" "p_status pl = ''Available''"
      "Some (p_id pl) \<noteq> exclude"
      and f: "pc_pilot cand = pl"
        "pc_score cand = pc_score (score_pilot required_certs required_skill
           (case required_skill of None \<Rightarrow> 0 | Some s \<Rightarrow> spec_skill_rank s) loc pl)"
        "pc_issues cand = pc_issues (score_pilot required_certs required_skill
           (case required_skill of None \<Rightarrow> 0 | Some s \<Rightarrow> spec_skill_rank s) loc pl)"
        "pc_recommended cand \<longleftrightarrow> pc_issues cand = []"
      unfolding score_pilot_spec by blast
    have "cand = score_pilot required_certs required_skill
         (case required_skill of None \<Rightarrow> 0 | Some s \<Rightarrow> spec_skill_rank s) loc pl"
      using f score_pilot_spec(1,4) [of required_certs required_skill
          "case required_skill of None \<Rightarrow> 0 | Some s \<Rightarrow> spec_skill_rank s" loc pl]
      by (intro pilot_candidate.equality) simp_all
    with pl show ?L unfolding pilot_candidates_set by blast
  qed
qed

text \<open>
  The claim as written fails in the issues of a pilot that lacks several certifications:
  the two missing certifications make one issue, not one issue each.
\<close>

theorem pilot_candidate_issue_counterexample:
  "length (filter (\<lambda>c. c \<notin> set (p_certifications ex_pilot_2)) [''DGCA'', ''Night Ops'']) = 2
   \<and> map pc_issues
         (rank_pilot_candidates [''DGCA'', ''Night Ops''] (Some ''Beginner'') None None
            [ex_pilot_2])
       = [[''Missing certs: DGCA, Night Ops'']]"
  by (simp add: rank_pilot_candidates_def pilot_candidates_def score_pilot_def sort_reverse_def
      skill_idx_def skill_order_def truthy_def ex_pilot_2_def)

lemmas rank_eval = rank_pilot_candidates_def pilot_candidates_def score_pilot_def
  sort_reverse_def skill_idx_def skill_order_def truthy_def str_opt_def lower_eval
  ex_pool_def ex_candidate_def ex_pilot_def ex_pilot_2_def

text \<open>
  The pool for a project that requires Advanced and prefers \<open>Pune\<close>, with Q7 excluded:
  the assigned pilot is not a candidate, and the five candidates returned have the scores
  of the formula.
\<close>

lemma ex_pool_ranking:
  "map (\<lambda>c. (p_id (pc_pilot c), pc_score c, pc_recommended c))
         (rank_pilot_candidates [] (Some ''Advanced'') (Some ''Pune'') (Some ''Q7'') ex_pool)
     = [(''Q3'', 90, True), (''Q5'', 90, True), (''Q2'', 70, False), (''Q1'', 55, False),
        (''Q4'', 55, False)]"
  by (simp add: rank_eval)

theorem pilot_candidate_score_witness:
  "map (\<lambda>c. (p_id (pc_pilot c), pc_score c, pc_recommended c))
         (rank_pilot_candidates [] (Some ''Advanced'') (Some ''Pune'') (Some ''Q7'') ex_pool)
     = [(''Q3'', 90, True), (''Q5'', 90, True), (''Q2'', 70, False), (''Q1'', 55, False),
        (''Q4'', 55, False)]
   \<and> rank_pilot_candidates [] (Some ''Advanced'') (Some ''Pune'') (Some ''Q7'') ex_pool ! 2
       \<in> set (pilot_candidates [] (Some ''Advanced'') (Some ''Pune'') (Some ''Q7'') ex_pool)"
proof -
  have "length (rank_pilot_candidates [] (Some ''Advanced'') (Some ''Pune'') (Some ''Q7'')
          ex_pool) = 5"
    using arg_cong [OF ex_pool_ranking, of length] by simp
  then have "rank_pilot_candidates [] (Some ''Advanced'') (Some ''Pune'') (Some ''Q7'') ex_pool
        ! 2
      \<in> set (rank_pilot_candidates [] (Some ''Advanced'') (Some ''Pune'') (Some ''Q7'')
            ex_pool)"
    by simp
  with pilot_candidate_score [of "[]" "Some ''Advanced''" "Some ''Pune''" "Some ''Q7''"
      ex_pool] ex_pool_ranking
  show ?thesis by blast
qed

text \<open>
  The candidates of the response are the ranking for the requirements that the response
  reports, which are those of the call or, where the call gives none, of the project.
\<close>

lemma find_replacement_pilot_candidates:
  "prs_candidates (find_replacement_pilot projects all_pilots arguments) =
     rank_pilot_candidates
       (prs_required_certifications (find_replacement_pilot projects all_pilots arguments))
       (prs_required_skill_level (find_replacement_pilot projects all_pilots arguments))
       (prs_preferred_location (find_replacement_pilot projects all_pilots arguments))
       (pa_exclude_pilot_id arguments) all_pilots"
  by (simp add: find_replacement_pilot_def Let_def)

lemma find_replacement_drone_candidates:
  "drs_candidates (find_replacement_drone projects all_drones arguments) =
     rank_drone_candidates
       (drs_required_capabilities (find_replacement_drone projects all_drones arguments))
       (drs_preferred_location (find_replacement_drone projects all_drones arguments))
       (da_exclude_drone_id arguments) all_drones"
  by (simp add: find_replacement_drone_def Let_def)

section \<open>Adding a certification\<close>

text \<open>
  Claim C7. Giving a pilot one required certification that it lacks, and taking none
  away, does not lower its score, all other inputs being the same.
\<close>

theorem score_pilot_monotone:
  assumes "c \<in> set required_certs" and "c \<notin> set (p_certifications pl)"
    and "set certs' = insert c (set (p_certifications pl))"
  shows "pc_score (score_pilot required_certs required_skill idx loc pl)
           \<le> pc_score (score_pilot required_certs required_skill idx loc
                 (pl\<lparr>p_certifications := certs'\<rparr>))"
proof -
  have "set required_certs \<subseteq> set (p_certifications pl)
          \<Longrightarrow> set required_certs \<subseteq> set certs'"
    using assms(3) by auto
  then show ?thesis by (simp add: score_pilot_spec)
qed

text \<open>
  The Beginner of the snapshot lacks both certifications that are required; with the
  first its score stays 25, with both it rises to 55.
\<close>

theorem score_pilot_monotone_witness:
  "pc_score (score_pilot [''DGCA'', ''Night Ops''] (Some ''Beginner'') 0 None ex_pilot_2) = 25
   \<and> pc_score (score_pilot [''DGCA'', ''Night Ops''] (Some ''Beginner'') 0 None
         (ex_pilot_2\<lparr>p_certifications := [''DGCA'']\<rparr>)) = 25
   \<and> pc_score (score_pilot [''DGCA'', ''Night Ops''] (Some ''Beginner'') 0 None
         (ex_pilot_2\<lparr>p_certifications := [''DGCA'', ''Night Ops'']\<rparr>)) = 55
   \<and> pc_score (score_pilot [''DGCA'', ''Night Ops''] (Some ''Beginner'') 0 None ex_pilot_2)
       \<le> pc_score (score_pilot [''DGCA'', ''Night Ops''] (Some ''Beginner'') 0 None
             (ex_pilot_2\<lparr>p_certifications := [''DGCA'']\<rparr>))"
proof -
  have "''DGCA'' \<in> set [''DGCA'', ''Night Ops'']" "''DGCA'' \<notin> set (p_certifications ex_pilot_2)"
    "set [''DGCA''] = insert ''DGCA'' (set (p_certifications ex_pilot_2))"
    by (simp_all add: ex_pilot_2_def)
  from score_pilot_monotone [OF this, of "Some ''Beginner''" 0 None]
  have "pc_score (score_pilot [''DGCA'', ''Night Ops''] (Some ''Beginner'') 0 None ex_pilot_2)
       \<le> pc_score (score_pilot [''DGCA'', ''Night Ops''] (Some ''Beginner'') 0 None
             (ex_pilot_2\<lparr>p_certifications := [''DGCA'']\<rparr>))" .
  moreover have
    "pc_score (score_pilot [''DGCA'', ''Night Ops''] (Some ''Beginner'') 0 None ex_pilot_2) = 25"
    "pc_score (score_pilot [''DGCA'', ''Night Ops''] (Some ''Beginner'') 0 None
         (ex_pilot_2\<lparr>p_certifications := [''DGCA'']\<rparr>)) = 25"
    "pc_score (score_pilot [''DGCA'', ''Night Ops''] (Some ''Beginner'') 0 None
         (ex_pilot_2\<lparr>p_certifications := [''DGCA'', ''Night Ops'']\<rparr>)) = 55"
    by (simp_all add: score_pilot_def skill_idx_def skill_order_def truthy_def ex_pilot_2_def)
  ultimately show ?thesis by blast
qed

section \<open>The order of the candidates\<close>

lemma sort_reverse_mset: "mset (sort_reverse key xs) = mset xs"
  by (simp add: sort_reverse_def)

lemma sort_reverse_descending: "sorted_wrt (\<lambda>a b. key a \<ge> key b) (sort_reverse key xs)"
proof -
  have "sorted (map key (sort_key key (rev xs)))" by (rule sorted_sort_key)
  then have "sorted_wrt (\<lambda>a b. key a \<le> key b) (sort_key key (rev xs))"
    by (simp add: sorted_wrt_map)
  then show ?thesis
    unfolding sort_reverse_def by (simp add: sorted_wrt_rev)
qed

lemma sort_reverse_stable:
  "filter (\<lambda>x. key x = k) (sort_reverse key xs) = filter (\<lambda>x. key x = k) xs"
proof -
  have "filter (\<lambda>x. key x = k) (sort_reverse key xs)
          = rev (filter (\<lambda>x. key x = k) (sort_key key (rev xs)))"
    by (simp add: sort_reverse_def rev_filter)
  also have "\<dots> = rev (filter (\<lambda>x. key x = k) (rev xs))"
    by (simp only: sort_key_stable)
  also have "\<dots> = filter (\<lambda>x. key x = k) xs"
    by (simp add: rev_filter)
  finally show ?thesis .
qed

lemma sorted_wrt_take_desc:
  "sorted_wrt R xs \<Longrightarrow> sorted_wrt R (take n xs)"
  by (induction xs arbitrary: n) (auto simp: take_Cons' dest: in_set_takeD)

text \<open>
  Claim C8. Both rankings return the first five, or all if there are fewer, of a list that
  holds the candidates built, each as often as it was built, in descending order of score,
  with the candidates of equal score in the order of the pool; so the list returned is in
  descending order of score and has at most five entries.
\<close>

theorem ranking_sorted_stable_truncated:
  "(\<exists>sorted_candidates.
        rank_pilot_candidates required_certs required_skill loc exclude all_pilots
          = take 5 sorted_candidates
      \<and> mset sorted_candidates
          = mset (pilot_candidates required_certs required_skill loc exclude all_pilots)
      \<and> sorted_wrt (\<lambda>a b. pc_score a \<ge> pc_score b) sorted_candidates
      \<and> (\<forall>k. filter (\<lambda>c. pc_score c = k) sorted_candidates
             = filter (\<lambda>c. pc_score c = k)
                 (pilot_candidates required_certs required_skill loc exclude all_pilots)))
   \<and> sorted_wrt (\<lambda>a b. pc_score a \<ge> pc_score b)
        (rank_pilot_candidates required_certs required_skill loc exclude all_pilots)
   \<and> length (rank_pilot_candidates required_certs required_skill loc exclude all_pilots)
        = min 5 (length (pilot_candidates required_certs required_skill loc exclude all_pilots))
   \<and> (\<exists>sorted_candidates.
        rank_drone_candidates required_caps loc exclude_drone all_drones
          = take 5 sorted_candidates
      \<and> mset sorted_candidates
          = mset (drone_candidates required_caps loc exclude_drone all_drones)
      \<and> sorted_wrt (\<lambda>a b. dc_score a \<ge> dc_score b) sorted_candidates
      \<and> (\<forall>k. filter (\<lambda>c. dc_score c = k) sorted_candidates
             = filter (\<lambda>c. dc_score c = k)
                 (drone_candidates required_caps loc exclude_drone all_drones)))
   \<and> sorted_wrt (\<lambda>a b. dc_score a \<ge> dc_score b)
        (rank_drone_candidates required_caps loc exclude_drone all_drones)
   \<and> length (rank_drone_candidates required_caps loc exclude_drone all_drones)
        = min 5 (length (drone_candidates required_caps loc exclude_drone all_drones))"
proof (intro conjI)
  show "\<exists>sorted_candidates.
        rank_pilot_candidates required_certs required_skill loc exclude all_pilots
          = take 5 sorted_candidates
      \<and> mset sorted_candidates
          = mset (pilot_candidates required_certs required_skill loc exclude all_pilots)
      \<and> sorted_wrt (\<lambda>a b. pc_score a \<ge> pc_score b) sorted_candidates
      \<and> (\<forall>k. filter (\<lambda>c. pc_score c = k) sorted_candidates
             = filter (\<lambda>c. pc_score c = k)
                 (pilot_candidates required_certs required_skill loc exclude all_pilots))"
    by (rule exI [of _ "sort_reverse pc_score
          (pilot_candidates required_certs required_skill loc exclude all_pilots)"])
      (simp add: rank_pilot_candidates_def sort_reverse_mset sort_reverse_descending
        sort_reverse_stable)
  show "\<exists>sorted_candidates.
        rank_drone_candidates required_caps loc exclude_drone all_drones
          = take 5 sorted_candidates
      \<and> mset sorted_candidates
          = mset (drone_candidates required_caps loc exclude_drone all_drones)
      \<and> sorted_wrt (\<lambda>a b. dc_score a \<ge> dc_score b) sorted_candidates
      \<and> (\<forall>k. filter (\<lambda>c. dc_score c = k) sorted_candidates
             = filter (\<lambda>c. dc_score c = k)
                 (drone_candidates required_caps loc exclude_drone all_drones))"
    by (rule exI [of _ "sort_reverse dc_score
          (drone_candidates required_caps loc exclude_drone all_drones)"])
      (simp add: rank_drone_candidates_def sort_reverse_mset sort_reverse_descending
        sort_reverse_stable)
  show "sorted_wrt (\<lambda>a b. pc_score a \<ge> pc_score b)
        (rank_pilot_candidates required_certs required_skill loc exclude all_pilots)"
    unfolding rank_pilot_candidates_def
    by (rule sorted_wrt_take_desc [OF sort_reverse_descending])
  show "sorted_wrt (\<lambda>a b. dc_score a \<ge> dc_score b)
        (rank_drone_candidates required_caps loc exclude_drone all_drones)"
    unfolding rank_drone_candidates_def
    by (rule sorted_wrt_take_desc [OF sort_reverse_descending])
  show "length (rank_pilot_candidates required_certs required_skill loc exclude all_pilots)
        = min 5 (length (pilot_candidates required_certs required_skill loc exclude all_pilots))"
    by (simp add: rank_pilot_candidates_def sort_reverse_def)
  show "length (rank_drone_candidates required_caps loc exclude_drone all_drones)
        = min 5 (length (drone_candidates required_caps loc exclude_drone all_drones))"
    by (simp add: rank_drone_candidates_def sort_reverse_def)
qed

text \<open>
  Seven pilots of the pool are candidates. Q3 and Q5 tie at 90 and Q1, Q4 and Q7 at 55:
  each tie is in the order of the pool, and Q7 and Q6 are cut off. Of the six candidate
  drones, R3 and R6 tie at 72, R2 and R5 at 44, R1 and R4 at 32, and R4 is cut off.
\<close>

lemma ex_pool_order:
  "map (\<lambda>c. (p_id (pc_pilot c), pc_score c))
         (pilot_candidates [] (Some ''Advanced'') (Some ''Pune'') None ex_pool)
     = [(''Q1'', 55), (''Q2'', 70), (''Q3'', 90), (''Q4'', 55), (''Q5'', 90), (''Q6'', 35),
        (''Q7'', 55)]"
  "map (\<lambda>c. (p_id (pc_pilot c), pc_score c))
         (rank_pilot_candidates [] (Some ''Advanced'') (Some ''Pune'') None ex_pool)
     = [(''Q3'', 90), (''Q5'', 90), (''Q2'', 70), (''Q1'', 55), (''Q4'', 55)]"
  by (simp_all add: rank_eval)

lemma ex_drone_pool_order:
  "map (\<lambda>c. (d_id (dc_drone c), dc_score c))
         (drone_candidates [''Thermal''] (Some ''Pune'') None ex_drone_pool)
     = [(''R1'', 32), (''R2'', 44), (''R3'', 72), (''R4'', 32), (''R5'', 44), (''R6'', 72)]"
  "map (\<lambda>c. (d_id (dc_drone c), dc_score c))
         (rank_drone_candidates [''Thermal''] (Some ''Pune'') None ex_drone_pool)
     = [(''R3'', 72), (''R6'', 72), (''R2'', 44), (''R5'', 44), (''R1'', 32)]"
  by (simp_all add: rank_drone_candidates_def drone_candidates_def score_drone_def
      sort_reverse_def truthy_def str_opt_def lower_eval ex_drone_pool_def
      ex_drone_candidate_def ex_drone_def ex_drone_2_def)

theorem ranking_sorted_stable_truncated_witness:
  "map (\<lambda>c. (p_id (pc_pilot c), pc_score c))
         (rank_pilot_candidates [] (Some ''Advanced'') (Some ''Pune'') None ex_pool)
     = [(''Q3'', 90), (''Q5'', 90), (''Q2'', 70), (''Q1'', 55), (''Q4'', 55)]
   \<and> map (\<lambda>c. (d_id (dc_drone c), dc_score c))
         (rank_drone_candidates [''Thermal''] (Some ''Pune'') None ex_drone_pool)
     = [(''R3'', 72), (''R6'', 72), (''R2'', 44), (''R5'', 44), (''R1'', 32)]
   \<and> length (pilot_candidates [] (Some ''Advanced'') (Some ''Pune'') None ex_pool) = 7
   \<and> length (drone_candidates [''Thermal''] (Some ''Pune'') None ex_drone_pool) = 6
   \<and> length (rank_pilot_candidates [] (Some ''Advanced'') (Some ''Pune'') None ex_pool) = 5
   \<and> length (rank_drone_candidates [''Thermal''] (Some ''Pune'') None ex_drone_pool) = 5"
proof -
  have lp: "length (pilot_candidates [] (Some ''Advanced'') (Some ''Pune'') None ex_pool) = 7"
    using arg_cong [OF ex_pool_order(1), of length] by simp
  have ld: "length (drone_candidates [''Thermal''] (Some ''Pune'') None ex_drone_pool) = 6"
    using arg_cong [OF ex_drone_pool_order(1), of length] by simp
  from ranking_sorted_stable_truncated [of "[]" "Some ''Advanced''" "Some ''Pune''" None
      ex_pool "[''Thermal'']" None ex_drone_pool] lp ld
  have "length (rank_pilot_candidates [] (Some ''Advanced'') (Some ''Pune'') None ex_pool) = 5"
    "length (rank_drone_candidates [''Thermal''] (Some ''Pune'') None ex_drone_pool) = 5"
    by simp_all
  with ex_pool_order(2) ex_drone_pool_order(2) lp ld show ?thesis by blast
qed

end
